theory Spec2Isabelle
  imports Complex_Main "HOL-Library.AList"
begin

section \<open>Pagetalk \<^verbatim>\<open>js/ui.js\<close>: the page as data\<close>

text \<open>
  The file is a collection of functions that mutate DOM elements handed to them through an
  \<^verbatim>\<open>elements\<close> table, a \<^verbatim>\<open>state\<close> object and the \<^verbatim>\<open>window\<close>. Mutation is modelled
  by explicit state passing over a store of elements addressed by reference; closures
  (event listeners, timer callbacks) are defunctionalised into datatypes whose constructors
  carry what the closure captures. Console output and the scroll position
  (\<^verbatim>\<open>scrollIntoView\<close>) are not part of the modelled state.
\<close>

type_synonym ref = nat

text \<open>The \<^verbatim>\<open>elements\<close> argument: references to page elements, \<open>None\<close> where a lookup gave null.\<close>

record elements =
  tabs :: "ref list"
  tabContents :: "ref list"
  settingsNavBtns :: "ref list"
  settingsSubContents :: "ref list"
  chatMessages :: "ref option"
  connectionStatus :: "ref option"
  connectionIndicator :: "ref option"
  contextStatus :: "ref option"
  userInput :: "ref option"
  sendMessage :: "ref option"
  toggleApiKey :: "ref option"
  apiKeyInput :: "ref option"
  chatStatusMessage :: "ref option"

text \<open>
  Event listeners. \<open>External k\<close> is a function object supplied by the caller, known only by
  its identity \<open>k\<close>; every other constructor is an arrow function created in this file
  (lines 352, 353, 554, 607, 623, 639 and 114), with the values it captures.
\<close>

datatype handler =
    External nat
  | ResizeOnInput elements
  | ResizeOnPaste elements
  | CopyCodeClick nat
  | CopyMessageClick nat string
  | RegenerateClick nat string
  | DeleteClick nat string
  | ShowImageClick elements

datatype kind = Elem string | TextNode string

record props =
  ident :: string
  classes :: "string list"
  attrs :: "(string \<times> string) list"
  style :: "(string \<times> string) list"
  inputType :: string
  disabled :: bool
  listeners :: "(string \<times> handler) list"

text \<open>
  A node is an element (with its tag) or a text node (with its data), its own properties
  and its children in order. Text nodes carry properties only so that every operation is
  total; no function of the file creates a text node with children or classes. An element
  that a caller holds a reference to is a cell of the store below and carries the part of
  its subtree that is reached only through it; a style assignment is stored as written.
\<close>

datatype node = Node (kind: kind) (props: props) (kids: "node list")

text \<open>
  Pending \<^verbatim>\<open>setTimeout\<close> callbacks, one constructor for each arrow function handed to
  \<^verbatim>\<open>setTimeout\<close> (lines 243, 301, 353/356, 506, 509, 663 and 693).
\<close>

datatype action =
    ConnectionStatusHide elements string
  | ToastHide ref
  | ResizeDeferred elements
  | ChatStatusFade elements string
  | ChatStatusHide elements string
  | CopyCodeRestore ref string
  | CopyMessageRestore ref node node

text \<open>
  The mutable environment: the store of referenced elements; the elements of the host page
  that \<^verbatim>\<open>document\<close> lookups range over, in document order; for each element the
  referenced elements that are its children, and the parent of each; the next unused
  reference; the pending timers (delay in milliseconds and callback);
  \<^verbatim>\<open>state.isStreaming\<close>; \<^verbatim>\<open>window.GeminiAPI\<close> (\<open>None\<close> when the global is missing,
  otherwise its \<^verbatim>\<open>currentAbortController\<close>, \<open>None\<close> for null); the number of identifiers
  drawn so far; \<^verbatim>\<open>document.documentElement.lang\<close> and \<^verbatim>\<open>document.title\<close>.
\<close>

record world =
  heap :: "ref \<Rightarrow> node"
  document :: "ref list"
  childRefs :: "ref \<Rightarrow> ref list"
  parentNode :: "ref \<Rightarrow> ref option"
  fresh :: ref
  timers :: "(nat \<times> action) list"
  isStreaming :: bool
  GeminiAPI :: "nat option option"
  idCalls :: nat
  documentLang :: string
  documentTitle :: string

text \<open>
  What the file calls but does not define: the global \<^verbatim>\<open>window.MarkdownRenderer.render\<close>,
  the browser's HTML parser and serialiser behind \<^verbatim>\<open>innerHTML\<close>, \<^verbatim>\<open>atob\<close> and
  \<^verbatim>\<open>decodeURIComponent\<close> (\<open>None\<close> when they throw), the layout-dependent readings
  \<^verbatim>\<open>innerText\<close>, \<^verbatim>\<open>getComputedStyle\<close> and \<^verbatim>\<open>scrollHeight\<close>, \<^verbatim>\<open>parseFloat\<close> (\<open>None\<close> for
  NaN; numbers are the finite ones), number formatting, \<^verbatim>\<open>String.prototype.replace\<close> with
  a string pattern, the selector engine for the selectors of
  \<^verbatim>\<open>updateUIElementsWithTranslations\<close>, and the imports \<^verbatim>\<open>escapeHtml\<close>,
  \<^verbatim>\<open>generateUniqueId\<close> (as a function of the number of earlier calls) and
  \<^verbatim>\<open>renderDynamicContent\<close>. They are parameters of the model.
\<close>

record externals =
  render :: "string \<Rightarrow> string"
  parseHTML :: "string \<Rightarrow> node list"
  serializeHTML :: "node list \<Rightarrow> string"
  atob :: "string \<Rightarrow> string option"
  decodeURIComponent :: "string \<Rightarrow> string option"
  innerText :: "node \<Rightarrow> string"
  getComputedStyle :: "node \<Rightarrow> string \<Rightarrow> string"
  scrollHeight :: "node \<Rightarrow> real"
  parseFloat :: "string \<Rightarrow> real option"
  numberToString :: "real \<Rightarrow> string"
  stringReplace :: "string \<Rightarrow> string \<Rightarrow> string \<Rightarrow> string"
  querySelector :: "world \<Rightarrow> string \<Rightarrow> ref option"
  escapeHtml :: "string \<Rightarrow> string"
  generateUniqueId :: "nat \<Rightarrow> string"
  renderDynamicContent :: "elements \<Rightarrow> node \<Rightarrow> node"

type_synonym dictionary = "(string \<times> string) list"

datatype 'a completion = Returned 'a | Threw

record options =
  opt_isStreaming :: bool
  images :: "string list"
  insertAfterElement :: "ref option"
  forceScroll :: bool

section \<open>DOM operations\<close>

definition empty_props :: props where
  "empty_props = \<lparr>ident = [], classes = [], attrs = [], style = [], inputType = [],
     disabled = False, listeners = []\<rparr>"

definition createElement :: "string \<Rightarrow> node" where
  "createElement tagName = Node (Elem tagName) empty_props []"

definition map_props :: "(props \<Rightarrow> props) \<Rightarrow> node \<Rightarrow> node" where
  "map_props f n = Node (kind n) (f (props n)) (kids n)"

definition is_element :: "node \<Rightarrow> bool" where
  "is_element n = (case kind n of Elem _ \<Rightarrow> True | TextNode _ \<Rightarrow> False)"

definition classList_contains :: "node \<Rightarrow> string \<Rightarrow> bool" where
  "classList_contains n c \<longleftrightarrow> c \<in> set (classes (props n))"

definition classList_add :: "string \<Rightarrow> node \<Rightarrow> node" where
  "classList_add c n =
     (if c \<in> set (classes (props n)) then n
      else map_props (\<lambda>p. p\<lparr>classes := classes p @ [c]\<rparr>) n)"

definition classList_remove :: "string \<Rightarrow> node \<Rightarrow> node" where
  "classList_remove c n = map_props (\<lambda>p. p\<lparr>classes := removeAll c (classes p)\<rparr>) n"

text \<open>\<^verbatim>\<open>classList.toggle(token, force)\<close> with the force argument given.\<close>

definition classList_toggle :: "string \<Rightarrow> bool \<Rightarrow> node \<Rightarrow> node" where
  "classList_toggle c force n = (if force then classList_add c n else classList_remove c n)"

text \<open>
  \<^verbatim>\<open>el.className = s\<close>: the class list becomes the tokens of \<open>s\<close>, split at ASCII
  whitespace, each kept at its first occurrence.
\<close>

definition is_ws :: "char \<Rightarrow> bool" where
  "is_ws c \<longleftrightarrow> c \<in> set [CHR '' '', CHR 0x09, CHR 0x0A, CHR 0x0C, CHR 0x0D]"

fun tokens_acc :: "string \<Rightarrow> string \<Rightarrow> string list" where
  "tokens_acc cur [] = (if cur = [] then [] else [cur])"
| "tokens_acc cur (c # cs) =
     (if is_ws c then (if cur = [] then tokens_acc [] cs else cur # tokens_acc [] cs)
      else tokens_acc (cur @ [c]) cs)"

definition class_tokens :: "string \<Rightarrow> string list" where
  "class_tokens s = rev (remdups (rev (tokens_acc [] s)))"

definition set_className :: "string \<Rightarrow> node \<Rightarrow> node" where
  "set_className s n = map_props (\<lambda>p. p\<lparr>classes := class_tokens s\<rparr>) n"

definition getAttribute :: "node \<Rightarrow> string \<Rightarrow> string option" where
  "getAttribute n a = map_of (attrs (props n)) a"

definition setAttribute :: "string \<Rightarrow> string \<Rightarrow> node \<Rightarrow> node" where
  "setAttribute a v n = map_props (\<lambda>p. p\<lparr>attrs := AList.update a v (attrs p)\<rparr>) n"

text \<open>
  \<^verbatim>\<open>el.dataset.key\<close>: the attribute \<^verbatim>\<open>data-key\<close> (keys are written here in their attribute
  spelling), \<open>None\<close> for \<^verbatim>\<open>undefined\<close>. \<^verbatim>\<open>el.title\<close> is the attribute \<^verbatim>\<open>title\<close>.
\<close>

definition dataset :: "node \<Rightarrow> string \<Rightarrow> string option" where
  "dataset n k = getAttribute n (''data-'' @ k)"

definition set_title :: "string \<Rightarrow> node \<Rightarrow> node" where
  "set_title v n = setAttribute ''title'' v n"

definition set_style :: "string \<Rightarrow> string \<Rightarrow> node \<Rightarrow> node" where
  "set_style property v n = map_props (\<lambda>p. p\<lparr>style := AList.update property v (style p)\<rparr>) n"

definition get_style :: "node \<Rightarrow> string \<Rightarrow> string option" where
  "get_style n property = map_of (style (props n)) property"

definition set_disabled :: "bool \<Rightarrow> node \<Rightarrow> node" where
  "set_disabled b n = map_props (\<lambda>p. p\<lparr>disabled := b\<rparr>) n"

definition set_inputType :: "string \<Rightarrow> node \<Rightarrow> node" where
  "set_inputType t n = map_props (\<lambda>p. p\<lparr>inputType := t\<rparr>) n"

text \<open>
  \<^verbatim>\<open>textContent\<close>: reading concatenates the text below the node; writing replaces the
  children of an element by one text node, or by nothing for the empty string, and the
  data of a text node.
\<close>

fun textContent :: "node \<Rightarrow> string" where
  "textContent (Node k p ks) =
     (case k of TextNode s \<Rightarrow> s | Elem _ \<Rightarrow> concat (map textContent ks))"

definition set_textContent :: "string \<Rightarrow> node \<Rightarrow> node" where
  "set_textContent s n =
     (case kind n of
        TextNode _ \<Rightarrow> Node (TextNode s) (props n) (kids n)
      | Elem _ \<Rightarrow>
          Node (kind n) (props n) (if s = [] then [] else [Node (TextNode s) empty_props []]))"

definition innerHTML :: "externals \<Rightarrow> node \<Rightarrow> string" where
  "innerHTML X n = serializeHTML X (kids n)"

definition set_innerHTML :: "externals \<Rightarrow> string \<Rightarrow> node \<Rightarrow> node" where
  "set_innerHTML X s n = Node (kind n) (props n) (parseHTML X s)"

definition appendChild :: "node \<Rightarrow> node \<Rightarrow> node" where
  "appendChild parent child = Node (kind parent) (props parent) (kids parent @ [child])"

text \<open>
  \<^verbatim>\<open>addEventListener\<close> ignores a listener that is already registered for the event; an
  arrow function evaluated at the call is a new object each time and is always added.
\<close>

definition addEventListener :: "string \<Rightarrow> handler \<Rightarrow> node \<Rightarrow> node" where
  "addEventListener ev h n =
     (case h of
        External _ \<Rightarrow>
          (if (ev, h) \<in> set (listeners (props n)) then n
           else map_props (\<lambda>p. p\<lparr>listeners := listeners p @ [(ev, h)]\<rparr>) n)
      | _ \<Rightarrow> map_props (\<lambda>p. p\<lparr>listeners := listeners p @ [(ev, h)]\<rparr>) n)"

definition removeEventListener :: "string \<Rightarrow> handler \<Rightarrow> node \<Rightarrow> node" where
  "removeEventListener ev h n = map_props (\<lambda>p. p\<lparr>listeners := remove1 (ev, h) (listeners p)\<rparr>) n"

text \<open>Descendants in document order, and \<^verbatim>\<open>querySelector\<close> for a class or a tag name.\<close>

fun descendants :: "node \<Rightarrow> node list" where
  "descendants (Node k p ks) = concat (map (\<lambda>c. c # descendants c) ks)"

definition querySelector_class :: "string \<Rightarrow> node \<Rightarrow> node option" where
  "querySelector_class c n = find (\<lambda>d. is_element d \<and> classList_contains d c) (descendants n)"

definition querySelector_tag :: "string \<Rightarrow> node \<Rightarrow> node option" where
  "querySelector_tag t n = find (\<lambda>d. kind d = Elem t) (descendants n)"

text \<open>
  \<^verbatim>\<open>querySelectorAll(sel).forEach(f)\<close>: the matches are fixed before the first call, as
  positions (child indices from the root) in document order; \<open>f\<close> then mutates the node at
  each position in turn.
\<close>

function paths_where :: "(node \<Rightarrow> bool) \<Rightarrow> node \<Rightarrow> nat list list" where
  "paths_where P (Node k p ks) =
     concat (map (\<lambda>i. (if P (ks ! i) then [[i]] else []) @ map ((#) i) (paths_where P (ks ! i)))
                 [0..<length ks])"
  by pat_completeness auto
termination
proof (relation "measure (\<lambda>(P, n). size n)")
  show "wf (measure (\<lambda>(P, n). size n))" by simp
next
  fix P :: "node \<Rightarrow> bool" and k p and ks :: "node list" and i
  assume "i \<in> set [0..<length ks]"
  then have "ks ! i \<in> set ks" by simp
  then have "size (ks ! i) \<le> size_list size ks" by (rule size_list_estimation') simp
  then show "((P, ks ! i), (P, Node k p ks)) \<in> measure (\<lambda>(P, n). size n)" by simp
qed

fun update_at :: "nat list \<Rightarrow> (node \<Rightarrow> node) \<Rightarrow> node \<Rightarrow> node" where
  "update_at [] f n = f n"
| "update_at (i # path) f n =
     (if i < length (kids n)
      then Node (kind n) (props n) ((kids n)[i := update_at path f (kids n ! i)])
      else n)"

fun node_at :: "nat list \<Rightarrow> node \<Rightarrow> node option" where
  "node_at [] n = Some n"
| "node_at (i # path) n = (if i < length (kids n) then node_at path (kids n ! i) else None)"

definition forEach_matching :: "(node \<Rightarrow> bool) \<Rightarrow> (node \<Rightarrow> node) \<Rightarrow> node \<Rightarrow> node" where
  "forEach_matching P f n = fold (\<lambda>path. update_at path f) (paths_where P n) n"

text \<open>\<^verbatim>\<open>el.remove()\<close> for the first descendant that satisfies \<open>P\<close>.\<close>

fun remove_first :: "(node \<Rightarrow> bool) \<Rightarrow> node list \<Rightarrow> node list" where
  "remove_first P [] = []"
| "remove_first P (Node k p ks # ns) =
     (if P (Node k p ks) then ns
      else if \<exists>d \<in> set (descendants (Node k p ks)). P d
           then Node k p (remove_first P ks) # ns
           else Node k p ks # remove_first P ns)"

definition remove_descendant :: "(node \<Rightarrow> bool) \<Rightarrow> node \<Rightarrow> node" where
  "remove_descendant P n = Node (kind n) (props n) (remove_first P (kids n))"

text \<open>\<^verbatim>\<open>cloneNode(true)\<close>: a deep copy; listeners are not copied.\<close>

fun cloneNode :: "node \<Rightarrow> node" where
  "cloneNode (Node k p ks) = Node k (p\<lparr>listeners := []\<rparr>) (map cloneNode ks)"

subsection \<open>The store\<close>

definition update_el :: "ref \<Rightarrow> (node \<Rightarrow> node) \<Rightarrow> world \<Rightarrow> world" where
  "update_el r f w = w\<lparr>heap := (heap w)(r := f (heap w r))\<rparr>"

text \<open>\<^verbatim>\<open>list.forEach(el => mutate el)\<close> over a list of references.\<close>

definition forEach_el :: "(node \<Rightarrow> node) \<Rightarrow> ref list \<Rightarrow> world \<Rightarrow> world" where
  "forEach_el f rs w = fold (\<lambda>r. update_el r f) rs w"

definition setTimeout :: "action \<Rightarrow> nat \<Rightarrow> world \<Rightarrow> world" where
  "setTimeout callback delay w = w\<lparr>timers := timers w @ [(delay, callback)]\<rparr>"

text \<open>
  \<^verbatim>\<open>document.querySelector('.a.b')\<close>: the first element of the document carrying all the
  classes; \<^verbatim>\<open>document.getElementById\<close>.
\<close>

definition document_querySelector_classes :: "string list \<Rightarrow> world \<Rightarrow> ref option" where
  "document_querySelector_classes cs w =
     find (\<lambda>r. is_element (heap w r) \<and> (\<forall>c \<in> set cs. classList_contains (heap w r) c))
       (document w)"

definition document_getElementById :: "string \<Rightarrow> world \<Rightarrow> ref option" where
  "document_getElementById i w =
     find (\<lambda>r. is_element (heap w r) \<and> ident (props (heap w r)) = i) (document w)"

text \<open>\<^verbatim>\<open>document.createElement\<close> for an element that is referenced afterwards.\<close>

definition allocate :: "string \<Rightarrow> world \<Rightarrow> ref \<times> world" where
  "allocate tagName w =
     (fresh w, w\<lparr>heap := (heap w)(fresh w := createElement tagName), fresh := Suc (fresh w)\<rparr>)"

section \<open>The functions of \<^verbatim>\<open>ui.js\<close>\<close>

definition nl :: string where
  "nl = [CHR 0x0A]"

text \<open>
  The helper \<^verbatim>\<open>_(key, replacements, translations)\<close>, lines 20-26. A missing or empty
  translation falls back to the key; the replacements are given in property order.
\<close>

definition translate ::
  "externals \<Rightarrow> string \<Rightarrow> (string \<times> string) list \<Rightarrow> dictionary \<Rightarrow> string" where
  "translate X key replacements translations =
     fold (\<lambda>(placeholder, v) translation.
             stringReplace X translation (''{'' @ placeholder @ ''}'') v)
       replacements
       (case map_of translations key of None \<Rightarrow> key | Some t \<Rightarrow> if t = [] then key else t)"

subsection \<open>Tabs\<close>

text \<open>
  \<^verbatim>\<open>switchTab(tabId, elements, switchSettingsSubTab)\<close>, lines 34-44: the two \<^verbatim>\<open>forEach\<close>
  loops of lines 35-36 are \<open>toggleTabs\<close>. The third argument is the function handed over by
  the caller; it receives the sub-tab name and acts on the environment.
\<close>

definition toggleTabs :: "string \<Rightarrow> elements \<Rightarrow> world \<Rightarrow> world" where
  "toggleTabs tabId els w =
     (let w1 = forEach_el
                 (\<lambda>tab. classList_toggle ''active'' (dataset tab ''tab'' = Some tabId) tab)
                 (tabs els) w
      in forEach_el
           (\<lambda>content. classList_toggle ''active'' (ident (props content) = tabId) content)
           (tabContents els) w1)"

definition switchTab ::
  "string \<Rightarrow> elements \<Rightarrow> (string \<Rightarrow> world \<Rightarrow> world) \<Rightarrow> world \<Rightarrow> world" where
  "switchTab tabId els switchSettingsSubTab_cb w =
     (let w = toggleTabs tabId els w
      in if tabId = ''settings'' then
           (case document_querySelector_classes [''settings-nav-btn'', ''active''] w of
              None \<Rightarrow> switchSettingsSubTab_cb ''general'' w
            | Some activeSubTab \<Rightarrow> w)
         else w)"

text \<open>\<^verbatim>\<open>switchSettingsSubTab(subTabId, elements)\<close>, lines 51-58.\<close>

definition switchSettingsSubTab :: "string \<Rightarrow> elements \<Rightarrow> world \<Rightarrow> world" where
  "switchSettingsSubTab subTabId els w =
     (let w1 = forEach_el
                 (\<lambda>btn. classList_toggle ''active'' (dataset btn ''subtab'' = Some subTabId) btn)
                 (settingsNavBtns els) w
      in forEach_el
           (\<lambda>content. classList_toggle ''active''
                        (ident (props content) = ''settings-'' @ subTabId) content)
           (settingsSubContents els) w1)"

subsection \<open>Messages\<close>

text \<open>
  Lines 81-85 and, with the same text, lines 217-221: the new element goes after
  \<^verbatim>\<open>insertAfterElement\<close> when that is a child of \<^verbatim>\<open>elements.chatMessages\<close>, and to the end
  of \<^verbatim>\<open>elements.chatMessages\<close> otherwise. \<^verbatim>\<open>insertAdjacentElement('afterend', _)\<close> does
  nothing on an element without parent; \<^verbatim>\<open>appendChild\<close> on null throws.
\<close>

fun insert_after :: "ref \<Rightarrow> ref \<Rightarrow> ref list \<Rightarrow> ref list" where
  "insert_after a new [] = []"
| "insert_after a new (x # xs) =
     (if x = a then x # new # xs else x # insert_after a new xs)"

definition attachToChat :: "ref option \<Rightarrow> elements \<Rightarrow> ref \<Rightarrow> world \<Rightarrow> unit completion \<times> world" where
  "attachToChat insertAfter els el w =
     (case insertAfter of
        Some a \<Rightarrow>
          (if parentNode w a = chatMessages els then
             (case parentNode w a of
                None \<Rightarrow> (Returned (), w)
              | Some parent \<Rightarrow>
                  (Returned (),
                   w\<lparr>childRefs := (childRefs w)(parent := insert_after a el (childRefs w parent)),
                     parentNode := (parentNode w)(el \<mapsto> parent)\<rparr>))
           else
             (case chatMessages els of
                None \<Rightarrow> (Threw, w)
              | Some chat \<Rightarrow>
                  (Returned (),
                   w\<lparr>childRefs := (childRefs w)(chat := childRefs w chat @ [el]),
                     parentNode := (parentNode w)(el \<mapsto> chat)\<rparr>)))
      | None \<Rightarrow>
          (case chatMessages els of
             None \<Rightarrow> (Threw, w)
           | Some chat \<Rightarrow>
               (Returned (),
                w\<lparr>childRefs := (childRefs w)(chat := childRefs w chat @ [el]),
                  parentNode := (parentNode w)(el \<mapsto> chat)\<rparr>)))"

text \<open>The string built in lines 92-107 of \<^verbatim>\<open>addMessageToChat\<close>.\<close>

definition imageTag :: "externals \<Rightarrow> dictionary \<Rightarrow> nat \<Rightarrow> string \<Rightarrow> string" where
  \<open>imageTag X currentTranslations index dataUrl =
     (let altText = escapeHtml X (translate X ''imageAlt''
                      [(''index'', numberToString X (real (index + 1)))] currentTranslations)
      in ''<img class="message-image" src="'' @ escapeHtml X dataUrl @ ''" alt="'' @ altText @
         ''" data-index="'' @ numberToString X (real index) @ ''" data-url="'' @
         escapeHtml X dataUrl @ ''">'')\<close>

definition imagesHTML :: "externals \<Rightarrow> dictionary \<Rightarrow> string list \<Rightarrow> string" where
  \<open>imagesHTML X currentTranslations imgs =
     ''<div class="message-images">'' @
     concat (map (\<lambda>(index, image). imageTag X currentTranslations index image)
               (enumerate 0 imgs)) @
     ''</div>''\<close>

definition messageHTML ::
  "externals \<Rightarrow> string option \<Rightarrow> string \<Rightarrow> string list \<Rightarrow> dictionary \<Rightarrow> string" where
  "messageHTML X content sender imgs currentTranslations =
     (let html = [];
          html = (if sender = ''user'' \<and> imgs \<noteq> []
                  then html @ imagesHTML X currentTranslations imgs
                  else html)
      in case content of
           None \<Rightarrow> html
         | Some c \<Rightarrow> if c = [] then html else html @ render X c)"

text \<open>
  \<^verbatim>\<open>addMessageToChat\<close>, lines 73-134. The two callbacks mutate the element they are given;
  the result is the reference of the element created.
\<close>

definition addMessageToChat ::
  "externals \<Rightarrow> string option \<Rightarrow> string \<Rightarrow> options \<Rightarrow> elements \<Rightarrow> dictionary \<Rightarrow>
   (node \<Rightarrow> node) \<Rightarrow> (node \<Rightarrow> string \<Rightarrow> node) \<Rightarrow> bool \<Rightarrow> world \<Rightarrow> ref completion \<times> world" where
  "addMessageToChat X content sender opts els currentTranslations
     addCopyButtonToCodeBlock_cb addMessageActionButtons_cb isUserNearBottom w =
     (let (messageElement, w) = allocate ''div'' w;
          w = update_el messageElement (classList_add ''message'') w;
          w = update_el messageElement (classList_add (sender @ ''-message'')) w;
          messageId = generateUniqueId X (idCalls w);
          w = w\<lparr>idCalls := Suc (idCalls w)\<rparr>;
          w = update_el messageElement (setAttribute ''data-message-id'' messageId) w
      in case attachToChat (insertAfterElement opts) els messageElement w of
           (Threw, w) \<Rightarrow> (Threw, w)
         | (Returned _, w) \<Rightarrow>
             if opt_isStreaming opts then (Returned messageElement, w)
             else
               (let w = update_el messageElement
                          (set_innerHTML X
                             (messageHTML X content sender (images opts) currentTranslations)) w;
                    w = (if sender = ''user'' \<and> images opts \<noteq> []
                         then update_el messageElement
                                (forEach_matching
                                   (\<lambda>d. is_element d \<and> classList_contains d ''message-image'')
                                   (addEventListener ''click'' (ShowImageClick els))) w
                         else w);
                    w = update_el messageElement
                          (forEach_matching
                             (\<lambda>d. is_element d \<and> classList_contains d ''code-block'')
                             addCopyButtonToCodeBlock_cb) w;
                    w = update_el messageElement
                          (\<lambda>m. addMessageActionButtons_cb m
                                  (case content of None \<Rightarrow> [] | Some c \<Rightarrow> c)) w;
                    w = update_el messageElement (renderDynamicContent X els) w
                in (Returned messageElement, w)))"

text \<open>\<^verbatim>\<open>updateStreamingMessage\<close>, lines 144-164.\<close>

definition updateStreamingMessage ::
  "externals \<Rightarrow> ref \<Rightarrow> string \<Rightarrow> bool \<Rightarrow> elements \<Rightarrow> world \<Rightarrow> world" where
  "updateStreamingMessage X messageElement content isUserNearBottom els w =
     (let formattedContent = render X content;
          streamingCursor = set_className ''streaming-cursor'' (createElement ''span'');
          messageActions = querySelector_class ''message-actions'' (heap w messageElement);
          w = update_el messageElement (set_innerHTML X formattedContent) w;
          w = (case messageActions of
                 Some a \<Rightarrow> update_el messageElement (\<lambda>m. appendChild m a) w
               | None \<Rightarrow> w)
      in update_el messageElement (\<lambda>m. appendChild m streamingCursor) w)"

text \<open>\<^verbatim>\<open>finalizeBotMessage\<close>, lines 176-196.\<close>

definition finalizeBotMessage ::
  "externals \<Rightarrow> ref \<Rightarrow> string \<Rightarrow> (node \<Rightarrow> node) \<Rightarrow> (node \<Rightarrow> string \<Rightarrow> node) \<Rightarrow>
   (world \<Rightarrow> world) \<Rightarrow> bool \<Rightarrow> elements \<Rightarrow> world \<Rightarrow> world" where
  "finalizeBotMessage X messageElement finalContent addCopyButtonToCodeBlock_cb
     addMessageActionButtons_cb restoreSendButtonAndInput_cb isUserNearBottom els w =
     (let w = (case querySelector_class ''streaming-cursor'' (heap w messageElement) of
                 Some streamingCursor \<Rightarrow>
                   update_el messageElement
                     (remove_descendant
                        (\<lambda>d. is_element d \<and> classList_contains d ''streaming-cursor'')) w
               | None \<Rightarrow> w);
          w = update_el messageElement (set_innerHTML X (render X finalContent)) w;
          w = update_el messageElement
                (forEach_matching (\<lambda>d. is_element d \<and> classList_contains d ''code-block'')
                   addCopyButtonToCodeBlock_cb) w;
          w = update_el messageElement (\<lambda>m. addMessageActionButtons_cb m finalContent) w;
          w = update_el messageElement (renderDynamicContent X els) w
      in restoreSendButtonAndInput_cb w)"

text \<open>\<^verbatim>\<open>addThinkingAnimation\<close>, lines 205-228.\<close>

definition addThinkingAnimation ::
  "ref option \<Rightarrow> elements \<Rightarrow> bool \<Rightarrow> world \<Rightarrow> ref completion \<times> world" where
  "addThinkingAnimation insertAfter els isUserNearBottom w =
     (let (thinkingElement, w) = allocate ''div'' w;
          w = update_el thinkingElement (classList_add ''message'') w;
          w = update_el thinkingElement (classList_add ''bot-message'') w;
          w = update_el thinkingElement (classList_add ''thinking'') w;
          thinkingDots = classList_add ''thinking-dots'' (createElement ''div'');
          thinkingDots = fold (\<lambda>i dots. appendChild dots (createElement ''span''))
                           [0..<3] thinkingDots;
          w = update_el thinkingElement (\<lambda>e. appendChild e thinkingDots) w
      in case attachToChat insertAfter els thinkingElement w of
           (Threw, w) \<Rightarrow> (Threw, w)
         | (Returned _, w) \<Rightarrow> (Returned thinkingElement, w))"

subsection \<open>Status lines and the toast\<close>

text \<open>\<^verbatim>\<open>showConnectionStatus\<close>, lines 236-250.\<close>

definition showConnectionStatus :: "string \<Rightarrow> string \<Rightarrow> elements \<Rightarrow> world \<Rightarrow> world" where
  "showConnectionStatus message type els w =
     (case connectionStatus els of
        None \<Rightarrow> w
      | Some status \<Rightarrow>
          (let w = update_el status (set_textContent message) w;
               w = update_el status (set_className (''connection-status '' @ type)) w;
               w = update_el status (set_style ''display'' ''block'') w
           in if type = ''success''
              then setTimeout (ConnectionStatusHide els message) 3000 w
              else w))"

text \<open>\<^verbatim>\<open>updateConnectionIndicator\<close>, lines 258-262.\<close>

definition updateConnectionIndicator ::
  "externals \<Rightarrow> bool \<Rightarrow> elements \<Rightarrow> dictionary \<Rightarrow> world \<Rightarrow> world" where
  "updateConnectionIndicator X isConnected els currentTranslations w =
     (case connectionIndicator els of
        None \<Rightarrow> w
      | Some indicator \<Rightarrow>
          (let w = update_el indicator
                     (set_className (if isConnected then ''connected'' else ''disconnected'')) w
           in update_el indicator
                (set_textContent
                   (if isConnected
                    then translate X ''connectionIndicatorConnected'' [] currentTranslations
                    else translate X ''connectionIndicatorDisconnected'' [] currentTranslations))
                w))"

text \<open>\<^verbatim>\<open>updateContextStatus\<close>, lines 271-276, for a key that is a string.\<close>

definition updateContextStatus ::
  "externals \<Rightarrow> string \<Rightarrow> (string \<times> string) list \<Rightarrow> elements \<Rightarrow> dictionary \<Rightarrow>
   world \<Rightarrow> world" where
  "updateContextStatus X contextStatusKey replacements els currentTranslations w =
     (case contextStatus els of
        None \<Rightarrow> w
      | Some status \<Rightarrow>
          (let prefix = translate X ''contextStatusPrefix'' [] currentTranslations;
               statusText = translate X contextStatusKey replacements currentTranslations
           in update_el status (set_textContent (prefix @ '' '' @ statusText)) w))"

text \<open>\<^verbatim>\<open>showToast\<close>, lines 284-306.\<close>

definition showToast :: "string \<Rightarrow> string \<Rightarrow> world \<Rightarrow> world" where
  "showToast message type w =
     (let (toast, w) =
            (case document_querySelector_classes [''toast''] w of
               Some t \<Rightarrow> (t, w)
             | None \<Rightarrow>
                 (let (t, w) = allocate ''div'' w;
                      w = update_el t (set_className ''toast'') w
                  in (t, w\<lparr>document := document w @ [t]\<rparr>)));
          w = update_el toast (set_textContent message) w;
          w = update_el toast (set_className (''toast '' @ type)) w;
          w = update_el toast (classList_add ''show'') w
      in setTimeout (ToastHide toast) 2000 w)"

text \<open>The element \<^verbatim>\<open>showToast\<close> writes to: the existing toast, or the one it creates.\<close>

definition toastOf :: "world \<Rightarrow> ref" where
  "toastOf w = (case document_querySelector_classes [''toast''] w of Some t \<Rightarrow> t | None \<Rightarrow> fresh w)"

text \<open>\<^verbatim>\<open>showChatStatusMessage\<close>, lines 495-516.\<close>

definition showChatStatusMessage :: "string \<Rightarrow> string \<Rightarrow> elements \<Rightarrow> world \<Rightarrow> world" where
  "showChatStatusMessage message type els w =
     (case chatStatusMessage els of
        None \<Rightarrow> w
      | Some status \<Rightarrow>
          (let w = update_el status (set_textContent message) w;
               w = update_el status (set_className (''chat-status '' @ type)) w;
               w = update_el status (set_style ''display'' ''block'') w;
               w = update_el status (set_style ''opacity'' ''1'') w;
               w = update_el status (set_style ''transform'' ''translateY(0)'') w
           in if type = ''success''
              then setTimeout (ChatStatusFade els message) 2000 w
              else w))"

subsection \<open>The input area\<close>

text \<open>
  \<^verbatim>\<open>resizeTextarea\<close>, lines 312-341. \<^verbatim>\<open>x || d\<close> on a number takes \<open>d\<close> for NaN and for
  zero. The sums \<^verbatim>\<open>paddingY\<close> and \<^verbatim>\<open>borderY\<close> of lines 320-321 are computed and never used.
\<close>

definition or_default :: "real option \<Rightarrow> real \<Rightarrow> real" where
  "or_default x d = (case x of None \<Rightarrow> d | Some v \<Rightarrow> if v = 0 then d else v)"

definition resizeTextarea :: "externals \<Rightarrow> elements \<Rightarrow> world \<Rightarrow> world" where
  "resizeTextarea X els w =
     (case userInput els of
        None \<Rightarrow> w
      | Some textarea \<Rightarrow>
          (let w = update_el textarea (set_style ''height'' ''auto'') w;
               computedStyle = getComputedStyle X (heap w textarea);
               scrollHeight' = scrollHeight X (heap w textarea);
               minHeight = or_default (parseFloat X (computedStyle ''minHeight'')) 32;
               maxHeight = or_default (parseFloat X (computedStyle ''maxHeight'')) 160;
               newHeight = scrollHeight';
               newHeight = max minHeight newHeight;
               newHeight = min newHeight maxHeight;
               w = update_el textarea
                     (set_style ''height'' (numberToString X newHeight @ ''px'')) w
           in update_el textarea
                (set_style ''overflowY''
                   (if scrollHeight' > maxHeight then ''scroll'' else ''hidden'')) w))"

text \<open>\<^verbatim>\<open>setupAutoresizeTextarea\<close>, lines 348-357.\<close>

definition setupAutoresizeTextarea :: "elements \<Rightarrow> world \<Rightarrow> world" where
  "setupAutoresizeTextarea els w =
     (case userInput els of
        None \<Rightarrow> w
      | Some textarea \<Rightarrow>
          (let w = update_el textarea (addEventListener ''input'' (ResizeOnInput els)) w;
               w = update_el textarea (addEventListener ''paste'' (ResizeOnPaste els)) w
           in setTimeout (ResizeDeferred els) 0 w))"

text \<open>The bodies of the two listeners of lines 352 and 353.\<close>

definition onInput :: "externals \<Rightarrow> elements \<Rightarrow> world \<Rightarrow> world" where
  "onInput X els w = resizeTextarea X els w"

definition onPaste :: "elements \<Rightarrow> world \<Rightarrow> world" where
  "onPaste els w = setTimeout (ResizeDeferred els) 0 w"

subsection \<open>Static translations\<close>

text \<open>
  \<^verbatim>\<open>updateUIElementsWithTranslations\<close>, lines 363-438: \<^verbatim>\<open>setText\<close> and \<^verbatim>\<open>setAttr\<close>
  (\<^verbatim>\<open>setPlaceholder\<close> and \<^verbatim>\<open>setTitle\<close> are \<^verbatim>\<open>setAttr\<close> on one attribute), applied in the order
  of lines 389-433. The argument is \<open>None\<close> for a null dictionary.
\<close>

datatype uiop = SetText string string | SetAttr string string string

definition applyTranslation :: "externals \<Rightarrow> dictionary \<Rightarrow> uiop \<Rightarrow> world \<Rightarrow> world" where
  "applyTranslation X currentTranslations op w =
     (case op of
        SetText selector key \<Rightarrow>
          (case querySelector X w selector of
             Some el \<Rightarrow> update_el el (set_textContent (translate X key [] currentTranslations)) w
           | None \<Rightarrow> w)
      | SetAttr selector attr key \<Rightarrow>
          (case querySelector X w selector of
             Some el \<Rightarrow> update_el el (setAttribute attr (translate X key [] currentTranslations)) w
           | None \<Rightarrow> w))"

definition staticTranslations :: "uiop list" where
  \<open>staticTranslations =
    [SetText ''label[for="chat-model-selection"]'' ''modelLabel'',
     SetAttr ''#chat-model-selection'' ''aria-label'' ''modelSelectLabel'',
     SetText ''label[for="chat-agent-selection"]'' ''agentLabel'',
     SetAttr ''#chat-agent-selection'' ''aria-label'' ''agentSelectLabel'',
     SetAttr ''#clear-context'' ''title'' ''clearContextTitle'',
     SetAttr ''#close-panel'' ''title'' ''closePanelTitle'',
     SetAttr ''#modal-image'' ''alt'' ''imagePreviewAltTranslated'',
     SetAttr ''#upload-image'' ''title'' ''uploadImageTitle'',
     SetAttr ''#user-input'' ''placeholder'' ''userInputPlaceholder'',
     SetAttr ''#send-message'' ''title'' ''sendMessageTitle'',
     SetText ''.footer-tab[data-tab="chat"]'' ''chatTab'',
     SetText ''.footer-tab[data-tab="settings"]'' ''settingsTab'',
     SetText ''.settings-nav-btn[data-subtab="general"]'' ''generalSettingsNav'',
     SetText ''.settings-nav-btn[data-subtab="agent"]'' ''agentSettingsNav'',
     SetText ''.settings-nav-btn[data-subtab="model"]'' ''modelSettingsNav'',
     SetAttr ''#close-panel-settings'' ''title'' ''closePanelTitle'',
     SetText ''#settings-general h2'' ''generalSettingsHeading'',
     SetText ''label[for="language-select"]'' ''languageLabel'',
     SetText ''label[for="export-format"]'' ''exportChatLabel'',
     SetText ''#export-format option[value="markdown"]'' ''exportFormatMarkdown'',
     SetText ''#export-format option[value="text"]'' ''exportFormatText'',
     SetText ''#export-chat-history'' ''exportButton'',
     SetText ''#settings-agent h2'' ''agentSettingsHeading'',
     SetText ''.agents-list-header h3'' ''agentsListHeading'',
     SetAttr ''#add-new-agent'' ''title'' ''addNewAgentTitle'',
     SetAttr ''#import-agents'' ''title'' ''importAgentConfigTitle'',
     SetAttr ''#export-agents'' ''title'' ''exportAgentConfigTitle'',
     SetText ''#delete-confirm-dialog h3'' ''deleteConfirmHeading'',
     SetText ''#cancel-delete'' ''cancel'',
     SetText ''#confirm-delete'' ''delete'',
     SetText ''#settings-model h2'' ''modelSettingsHeading'',
     SetText ''label[for="api-key"]'' ''apiKeyLabel'',
     SetAttr ''#api-key'' ''placeholder'' ''apiKeyPlaceholder'',
     SetAttr ''#toggle-api-key'' ''title'' ''toggleApiKeyVisibilityTitleTranslated'',
     SetText ''label[for="model-selection"]'' ''modelSelectLabelSettings'',
     SetText ''#save-model-settings'' ''save'',
     SetAttr ''#theme-toggle-btn'' ''title'' ''themeToggleTitle'']\<close>

definition updateUIElementsWithTranslations ::
  "externals \<Rightarrow> dictionary option \<Rightarrow> world \<Rightarrow> world" where
  "updateUIElementsWithTranslations X currentTranslations w =
     (case currentTranslations of
        None \<Rightarrow> w
      | Some tr \<Rightarrow>
          if tr = [] then w
          else
            (let w = w\<lparr>documentLang := translate X ''htmlLang'' [] tr\<rparr>;
                 w = w\<lparr>documentTitle := translate X ''pageTitle'' [] tr\<rparr>
             in fold (applyTranslation X tr) staticTranslations w))"

subsection \<open>The send button and the API key field\<close>

text \<open>The markup of the send icon, lines 456-460.\<close>

definition sendIconHTML :: string where
  \<open>sendIconHTML =
     nl @
     ''        <svg xmlns="http://www.w3.org/2000/svg" width="16" height="16" fill="currentColor" viewBox="0 0 16 16">'' @
     nl @
     ''            <path d="M15.854.146a.5.5 0 0 1 .11.54l-5.819 14.547a.75.75 0 0 1-1.329.124l-3.178-4.995L.643 7.184a.75.75 0 0 1 .124-1.33L15.314.037a.5.5 0 0 1 .54.11v-.001ZM6.636 10.07l2.761 4.338L14.13 2.576 6.636 10.07Zm6.787-8.201L1.591 6.602l4.339 2.76 7.494-7.493Z"/>'' @
     nl @
     ''        </svg>'' @
     nl @
     ''    ''\<close>

text \<open>
  \<^verbatim>\<open>restoreSendButtonAndInput\<close>, lines 448-468. The two callbacks are function objects of
  the caller. Reading \<^verbatim>\<open>classList\<close> of a null \<^verbatim>\<open>elements.sendMessage\<close> throws, after line
  452 has run.
\<close>

definition restoreSendButtonAndInput ::
  "externals \<Rightarrow> elements \<Rightarrow> dictionary \<Rightarrow> nat \<Rightarrow> nat \<Rightarrow> world \<Rightarrow> unit completion \<times> world" where
  "restoreSendButtonAndInput X els currentTranslations sendUserMessageCallback
     abortStreamingCallback w =
     (if \<not> isStreaming w then (Returned (), w)
      else
        (let w = w\<lparr>isStreaming := False\<rparr>
         in case sendMessage els of
              None \<Rightarrow> (Threw, w)
            | Some button \<Rightarrow>
                (let w = update_el button (classList_remove ''stop-streaming'') w;
                     w = update_el button
                           (set_title (translate X ''sendMessageTitle'' [] currentTranslations)) w;
                     w = update_el button (set_innerHTML X sendIconHTML) w;
                     w = update_el button
                           (removeEventListener ''click'' (External abortStreamingCallback)) w;
                     w = update_el button
                           (addEventListener ''click'' (External sendUserMessageCallback)) w
                 in (Returned (),
                     case GeminiAPI w of
                       Some (Some controller) \<Rightarrow> w\<lparr>GeminiAPI := Some None\<rparr>
                     | _ \<Rightarrow> w))))"

text \<open>\<^verbatim>\<open>toggleApiKeyVisibility\<close>, lines 474-487.\<close>

definition toggleApiKeyVisibility :: "elements \<Rightarrow> world \<Rightarrow> world" where
  "toggleApiKeyVisibility els w =
     (case (toggleApiKey els, apiKeyInput els) of
        (Some toggle, Some input) \<Rightarrow>
          (let type = (if inputType (props (heap w input)) = ''password''
                       then ''text'' else ''password'');
               w = update_el input (set_inputType type) w
           in case (document_getElementById ''eye-icon'' w,
                    document_getElementById ''eye-slash-icon'' w) of
                (Some eyeIcon, Some eyeSlashIcon) \<Rightarrow>
                  (let w = update_el eyeIcon
                             (set_style ''display''
                                (if type = ''text'' then ''none'' else ''inline-block'')) w
                   in update_el eyeSlashIcon
                        (set_style ''display''
                           (if type = ''text'' then ''inline-block'' else ''none'')) w)
              | _ \<Rightarrow> w)
      | _ \<Rightarrow> w)"

subsection \<open>Buttons on code blocks and messages\<close>

text \<open>
  \<^verbatim>\<open>addCopyButtonToCodeBlock\<close>, lines 524-573. The block is the element itself with
  everything below it; the callback is a function object of the caller.
\<close>

definition addCopyButtonToCodeBlock :: "externals \<Rightarrow> node \<Rightarrow> dictionary \<Rightarrow> nat \<Rightarrow> node" where
  "addCopyButtonToCodeBlock X block currentTranslations copyCodeToClipboardCallback =
     (case querySelector_class ''code-copy-button'' block of
        Some _ \<Rightarrow> block
      | None \<Rightarrow>
          (let copyButton = createElement ''button'';
               copyButton = classList_add ''code-copy-button'' copyButton;
               copyButton = set_title (translate X ''copyCode'' [] currentTranslations) copyButton;
               svg = createElement ''svg'';
               svg = setAttribute ''viewBox'' ''0 0 24 24'' svg;
               svg = setAttribute ''width'' ''14'' svg;
               svg = setAttribute ''height'' ''14'' svg;
               svg = setAttribute ''fill'' ''none'' svg;
               svg = setAttribute ''stroke'' ''currentColor'' svg;
               svg = setAttribute ''stroke-width'' ''2'' svg;
               rectElement = createElement ''rect'';
               rectElement = setAttribute ''x'' ''9'' rectElement;
               rectElement = setAttribute ''y'' ''9'' rectElement;
               rectElement = setAttribute ''width'' ''13'' rectElement;
               rectElement = setAttribute ''height'' ''13'' rectElement;
               rectElement = setAttribute ''rx'' ''2'' rectElement;
               rectElement = setAttribute ''ry'' ''2'' rectElement;
               pathElement = createElement ''path'';
               pathElement = setAttribute ''d''
                 ''M5 15H4a2 2 0 0 1-2-2V4a2 2 0 0 1 2-2h9a2 2 0 0 1 2 2v1'' pathElement;
               svg = appendChild svg rectElement;
               svg = appendChild svg pathElement;
               copyButton = appendChild copyButton svg;
               copyButton = addEventListener ''click''
                              (CopyCodeClick copyCodeToClipboardCallback) copyButton
           in appendChild block copyButton))"

text \<open>
  The click listener of lines 554-570, run on the block as it is when the click arrives:
  the text handed to \<^verbatim>\<open>copyCodeToClipboardCallback\<close>. The \<^verbatim>\<open>try\<close> block is the
  composition of the two decoders; \<open>None\<close> is the \<^verbatim>\<open>catch\<close>.
\<close>

definition codeFallback :: "externals \<Rightarrow> node \<Rightarrow> string" where
  "codeFallback X block =
     (case querySelector_tag ''code'' block of
        None \<Rightarrow> []
      | Some code \<Rightarrow> if innerText X code = [] then [] else innerText X code)"

definition copyCodeClick :: "externals \<Rightarrow> node \<Rightarrow> string" where
  "copyCodeClick X block =
     (let encodedCode = getAttribute block ''data-code''
      in case encodedCode of
           None \<Rightarrow> codeFallback X block
         | Some enc \<Rightarrow>
             if enc = [] then codeFallback X block
             else
               (case Option.bind (atob X enc) (decodeURIComponent X) of
                  Some codeToCopy \<Rightarrow> codeToCopy
                | None \<Rightarrow> codeFallback X block))"

text \<open>The markup of lines 601-606, 617-622 and 633-638.\<close>

definition copyIconHTML :: string where
  \<open>copyIconHTML =
     nl @
     ''        <svg viewBox="0 0 24 24" width="14" height="14" fill="none" stroke="currentColor" stroke-width="2" stroke-linecap="round" stroke-linejoin="round">'' @
     nl @
     ''            <rect x="9" y="9" width="13" height="13" rx="2" ry="2"></rect>'' @
     nl @
     ''            <path d="M5 15H4a2 2 0 0 1-2-2V4a2 2 0 0 1 2-2h9a2 2 0 0 1 2 2v1"></path>'' @
     nl @
     ''        </svg>'' @
     nl @
     ''    ''\<close>

definition regenerateIconHTML :: string where
  \<open>regenerateIconHTML =
     nl @
     ''        <svg xmlns="http://www.w3.org/2000/svg" width="16" height="16" fill="currentColor" viewBox="0 0 16 16">'' @
     nl @
     ''            <path d="M8 3a5 5 0 1 0 4.546 2.914.5.5 0 0 1 .908-.417A6 6 0 1 1 8 2v1z"/>'' @
     nl @
     ''            <path d="M8 4.466V.534a.25.25 0 0 1 .41-.192l2.36 1.966c.12.1.12.284 0 .384L8.41 4.658A.25.25 0 0 1 8 4.466z"/>'' @
     nl @
     ''        </svg>'' @
     nl @
     ''    ''\<close>

definition deleteIconHTML :: string where
  \<open>deleteIconHTML =
     nl @
     ''        <svg xmlns="http://www.w3.org/2000/svg" width="16" height="16" fill="currentColor" viewBox="0 0 16 16">'' @
     nl @
     ''            <path d="M5.5 5.5A.5.5 0 0 1 6 6v6a.5.5 0 0 1-1 0V6a.5.5 0 0 1 .5-.5zm2.5 0a.5.5 0 0 1 .5.5v6a.5.5 0 0 1-1 0V6a.5.5 0 0 1 .5-.5zm3 .5a.5.5 0 0 0-1 0v6a.5.5 0 0 0 1 0V6z"/>'' @
     nl @
     ''            <path fill-rule="evenodd" d="M14.5 3a1 1 0 0 1-1 1H13v9a2 2 0 0 1-2 2H5a2 2 0 0 1-2-2V4h-.5a1 1 0 0 1-1-1V2a1 1 0 0 1 1-1H6a1 1 0 0 1 1-1h3.5a1 1 0 0 1 1 1v1zM4.118 4 4 4.059V13a1 1 0 0 0 1 1h6a1 1 0 0 0 1-1V4.059L11.882 4H4.118zM2.5 3V2h11v1h-11z"/>'' @
     nl @
     ''        </svg>'' @
     nl @
     ''    ''\<close>

text \<open>\<^verbatim>\<open>addMessageActionButtons\<close>, lines 584-647.\<close>

definition addMessageActionButtons ::
  "externals \<Rightarrow> node \<Rightarrow> string \<Rightarrow> dictionary \<Rightarrow> nat \<Rightarrow> nat \<Rightarrow> nat \<Rightarrow> node" where
  "addMessageActionButtons X messageElement content currentTranslations
     copyMessageContentCallback regenerateMessageCallback deleteMessageCallback =
     (case dataset messageElement ''message-id'' of
        None \<Rightarrow> messageElement
      | Some messageId \<Rightarrow>
          if messageId = [] then messageElement
          else
            (case querySelector_class ''message-actions'' messageElement of
               Some _ \<Rightarrow> messageElement
             | None \<Rightarrow>
                 (let messageActions = createElement ''div'';
                      messageActions = set_className ''message-actions'' messageActions;
                      buttonsToAppend = [];
                      copyButton = createElement ''button'';
                      copyButton = classList_add ''copy-button'' copyButton;
                      copyButton = set_title (translate X ''copyAll'' [] currentTranslations)
                                     copyButton;
                      copyButton = set_innerHTML X copyIconHTML copyButton;
                      copyButton = addEventListener ''click''
                                     (CopyMessageClick copyMessageContentCallback content)
                                     copyButton;
                      buttonsToAppend = buttonsToAppend @ [copyButton];
                      regenerateButton = createElement ''button'';
                      regenerateButton =
                        set_className ''message-action-btn regenerate-btn'' regenerateButton;
                      regenerateButton =
                        set_title (translate X ''regenerate'' [] currentTranslations)
                          regenerateButton;
                      regenerateButton = set_innerHTML X regenerateIconHTML regenerateButton;
                      regenerateButton = addEventListener ''click''
                                           (RegenerateClick regenerateMessageCallback messageId)
                                           regenerateButton;
                      buttonsToAppend = buttonsToAppend @ [regenerateButton];
                      deleteButton = createElement ''button'';
                      deleteButton = set_className ''message-action-btn delete-btn'' deleteButton;
                      deleteButton =
                        set_title (translate X ''deleteMessage'' [] currentTranslations)
                          deleteButton;
                      deleteButton = set_innerHTML X deleteIconHTML deleteButton;
                      deleteButton = addEventListener ''click''
                                       (DeleteClick deleteMessageCallback messageId) deleteButton;
                      buttonsToAppend = buttonsToAppend @ [deleteButton];
                      messageActions = fold (\<lambda>button actions. appendChild actions button)
                                         buttonsToAppend messageActions
                  in appendChild messageElement messageActions)))"

subsection \<open>Copy feedback\<close>

text \<open>The markup of lines 656-660.\<close>

definition checkIconHTML :: string where
  \<open>checkIconHTML =
     nl @
     ''      <svg xmlns="http://www.w3.org/2000/svg" width="14" height="14" fill="#34a853" viewBox="0 0 16 16">'' @
     nl @
     ''        <path d="M13.854 3.646a.5.5 0 0 1 0 .708l-7 7a.5.5 0 0 1-.708 0l-3.5-3.5a.5.5 0 1 1 .708-.708L6.5 10.293l6.646-6.647a.5.5 0 0 1 .708 0z"/>'' @
     nl @
     ''      </svg>'' @
     nl @
     ''    ''\<close>

text \<open>\<^verbatim>\<open>showCopyCodeFeedback\<close>, lines 653-667.\<close>

definition showCopyCodeFeedback :: "externals \<Rightarrow> ref \<Rightarrow> world \<Rightarrow> world" where
  "showCopyCodeFeedback X buttonElement w =
     (let originalHTML = innerHTML X (heap w buttonElement);
          w = update_el buttonElement (set_innerHTML X checkIconHTML) w;
          w = update_el buttonElement (set_disabled True) w
      in setTimeout (CopyCodeRestore buttonElement originalHTML) 1500 w)"

text \<open>
  \<^verbatim>\<open>showCopyMessageFeedback\<close>, lines 673-700. \<^verbatim>\<open>replaceChild\<close> throws when the first
  \<^verbatim>\<open>svg\<close> below the button is not one of its children.
\<close>

definition first_match :: "(node \<Rightarrow> bool) \<Rightarrow> node \<Rightarrow> (nat list \<times> node) option" where
  "first_match P n =
     (case paths_where P n of
        [] \<Rightarrow> None
      | path # _ \<Rightarrow> map_option (Pair path) (node_at path n))"

definition replaceKid :: "nat \<Rightarrow> node \<Rightarrow> node \<Rightarrow> node" where
  "replaceKid i new n = Node (kind n) (props n) ((kids n)[i := new])"

definition showCopyMessageFeedback :: "ref \<Rightarrow> world \<Rightarrow> unit completion \<times> world" where
  "showCopyMessageFeedback buttonElement w =
     (case first_match (\<lambda>d. kind d = Elem ''svg'') (heap w buttonElement) of
        None \<Rightarrow> (Returned (), w)
      | Some (position, originalSVG) \<Rightarrow>
          (let newSVG = createElement ''svg'';
               newSVG = setAttribute ''viewBox'' ''0 0 24 24'' newSVG;
               newSVG = setAttribute ''width'' ''14'' newSVG;
               newSVG = setAttribute ''height'' ''14'' newSVG;
               newSVG = setAttribute ''fill'' ''none'' newSVG;
               newSVG = setAttribute ''stroke'' ''#34a853'' newSVG;
               newSVG = setAttribute ''stroke-width'' ''2'' newSVG;
               pathElement = createElement ''path'';
               pathElement = setAttribute ''d'' ''M20 6L9 17l-5-5'' pathElement;
               newSVG = appendChild newSVG pathElement;
               originalSVGCopy = cloneNode originalSVG
           in case position of
                [i] \<Rightarrow>
                  (let w = update_el buttonElement (replaceKid i newSVG) w;
                       w = update_el buttonElement (set_disabled True) w
                   in (Returned (),
                       setTimeout (CopyMessageRestore buttonElement originalSVGCopy newSVG)
                         1500 w))
              | _ \<Rightarrow> (Threw, w)))"

subsection \<open>Timers\<close>

text \<open>
  What each pending callback does when its timer fires, on the environment as it is then.
  In \<open>CopyMessageRestore\<close> the element created at line 677 is recognised by its value.
\<close>

fun index_of :: "'a \<Rightarrow> 'a list \<Rightarrow> nat option" where
  "index_of x [] = None"
| "index_of x (y # ys) = (if x = y then Some 0 else map_option Suc (index_of x ys))"

fun fire :: "externals \<Rightarrow> action \<Rightarrow> world \<Rightarrow> world" where
  "fire X (ConnectionStatusHide els message) w =
     (case connectionStatus els of
        None \<Rightarrow> w
      | Some status \<Rightarrow>
          if textContent (heap w status) = message
          then update_el status (set_style ''display'' ''none'') w
          else w)"
| "fire X (ToastHide toast) w = update_el toast (classList_remove ''show'') w"
| "fire X (ResizeDeferred els) w = resizeTextarea X els w"
| "fire X (ChatStatusFade els message) w =
     (case chatStatusMessage els of
        None \<Rightarrow> w
      | Some status \<Rightarrow>
          (let w = update_el status (set_style ''opacity'' ''0'') w;
               w = update_el status (set_style ''transform'' ''translateY(5px)'') w
           in setTimeout (ChatStatusHide els message) 300 w))"
| "fire X (ChatStatusHide els message) w =
     (case chatStatusMessage els of
        None \<Rightarrow> w
      | Some status \<Rightarrow>
          if textContent (heap w status) = message
          then update_el status (set_style ''display'' ''none'') w
          else w)"
| "fire X (CopyCodeRestore buttonElement originalHTML) w =
     (let w = update_el buttonElement (set_innerHTML X originalHTML) w
      in update_el buttonElement (set_disabled False) w)"
| "fire X (CopyMessageRestore buttonElement originalSVGCopy newSVG) w =
     (if newSVG \<in> set (descendants (heap w buttonElement))
      then (case index_of newSVG (kids (heap w buttonElement)) of
              None \<Rightarrow> w
            | Some i \<Rightarrow>
                (let w = update_el buttonElement (replaceKid i originalSVGCopy) w
                 in update_el buttonElement (set_disabled False) w))
      else update_el buttonElement (set_disabled False) w)"

text \<open>The pending timer at position \<open>i\<close> fires and leaves the queue.\<close>

definition fireTimer :: "externals \<Rightarrow> nat \<Rightarrow> world \<Rightarrow> world" where
  "fireTimer X i w =
     (if i < length (timers w)
      then fire X (snd (timers w ! i))
             (w\<lparr>timers := take i (timers w) @ drop (Suc i) (timers w)\<rparr>)
      else w)"

section \<open>An example page\<close>

text \<open>
  A page with two footer tabs, two tab panes, two settings buttons and two settings panes,
  and one element for each of the other entries of the element table.
\<close>

definition page :: elements where
  "page = \<lparr>tabs = [0, 1], tabContents = [2, 3], settingsNavBtns = [4, 5],
     settingsSubContents = [6, 7], chatMessages = Some 8, connectionStatus = Some 9,
     connectionIndicator = Some 10, contextStatus = Some 11, userInput = Some 12,
     sendMessage = Some 13, toggleApiKey = Some 14, apiKeyInput = Some 15,
     chatStatusMessage = Some 16\<rparr>"

definition pageHeap :: "ref \<Rightarrow> node" where
  "pageHeap r =
     (if r = 0 then classList_add ''active'' (setAttribute ''data-tab'' ''chat'' (createElement ''div''))
      else if r = 1 then setAttribute ''data-tab'' ''settings'' (createElement ''div'')
      else if r = 2 then classList_add ''active'' (map_props (\<lambda>p. p\<lparr>ident := ''chat''\<rparr>) (createElement ''div''))
      else if r = 3 then map_props (\<lambda>p. p\<lparr>ident := ''settings''\<rparr>) (createElement ''div'')
      else if r = 4 then setAttribute ''data-subtab'' ''general''
                           (classList_add ''settings-nav-btn'' (createElement ''button''))
      else if r = 5 then setAttribute ''data-subtab'' ''model''
                           (classList_add ''settings-nav-btn'' (createElement ''button''))
      else if r = 6 then map_props (\<lambda>p. p\<lparr>ident := ''settings-general''\<rparr>) (createElement ''div'')
      else if r = 7 then map_props (\<lambda>p. p\<lparr>ident := ''settings-model''\<rparr>) (createElement ''div'')
      else createElement ''div'')"

definition pageWorld :: world where
  "pageWorld = \<lparr>heap = pageHeap, document = [0..<17], childRefs = (\<lambda>r. []),
     parentNode = (\<lambda>r. None), fresh = 17, timers = [], isStreaming = False,
     GeminiAPI = None, idCalls = 0, documentLang = [], documentTitle = []\<rparr>"

text \<open>
  One choice of the parameters: a renderer and a parser that keep the text as it is,
  decoders that accept one string, no computed minimum or maximum height, and a scroll
  height of 200.
\<close>

definition plain :: externals where
  "plain = \<lparr>render = (\<lambda>s. s),
     parseHTML = (\<lambda>s. if s = [] then [] else [Node (TextNode s) empty_props []]),
     serializeHTML = (\<lambda>ns. concat (map textContent ns)),
     atob = (\<lambda>s. if s = ''Zm9v'' then Some ''foo'' else None),
     decodeURIComponent = (\<lambda>s. Some s),
     innerText = textContent,
     getComputedStyle = (\<lambda>n property. ''auto''),
     scrollHeight = (\<lambda>n. 200),
     parseFloat = (\<lambda>s. None),
     numberToString = (\<lambda>x. if x = 160 then ''160'' else ''?''),
     stringReplace = (\<lambda>s pattern replacement. s),
     querySelector = (\<lambda>w selector. None),
     escapeHtml = (\<lambda>s. s),
     generateUniqueId = (\<lambda>n. ''m'' @ replicate n CHR ''i''),
     renderDynamicContent = (\<lambda>els n. n)\<rparr>"

text \<open>
  Two further choices for the textarea: computed heights \<^verbatim>\<open>40px\<close> and \<^verbatim>\<open>120px\<close> that
  parse to 40 and 120, with a scroll height of 80; and computed heights \<^verbatim>\<open>0px\<close> that
  parse to zero, with a scroll height of 10.
\<close>

definition styled :: externals where
  "styled = plain\<lparr>
     getComputedStyle := (\<lambda>n property. if property = ''minHeight'' then ''40px''
                                        else if property = ''maxHeight'' then ''120px''
                                        else ''auto''),
     scrollHeight := (\<lambda>n. 80),
     parseFloat := (\<lambda>s. if s = ''40px'' then Some 40
                         else if s = ''120px'' then Some 120 else None),
     numberToString := (\<lambda>x. if x = 80 then ''80'' else ''?'')\<rparr>"

definition zeroed :: externals where
  "zeroed = plain\<lparr>
     getComputedStyle := (\<lambda>n property. ''0px''),
     scrollHeight := (\<lambda>n. 10),
     parseFloat := (\<lambda>s. if s = ''0px'' then Some 0 else None),
     numberToString := (\<lambda>x. if x = 32 then ''32'' else ''?'')\<rparr>"

text \<open>A code block whose cached text does not decode, with a \<^verbatim>\<open>code\<close> child.\<close>

definition brokenBlock :: node where
  "brokenBlock =
     appendChild (setAttribute ''data-code'' ''%%%'' (createElement ''pre''))
       (set_textContent ''x = 1'' (createElement ''code''))"

text \<open>
  The example page while an answer is streaming: the send button shows the stop state and
  carries the abort listener, and an abort controller is installed.
\<close>

definition streamingWorld :: world where
  "streamingWorld =
     pageWorld\<lparr>heap := pageHeap(13 := addEventListener ''click'' (External 2)
                                         (classList_add ''stop-streaming'' (createElement ''button''))),
               isStreaming := True, GeminiAPI := Some (Some 7)\<rparr>"

text \<open>
  The timer callbacks that fade out the toast or one of the two status lines (lines 243,
  301, 506 and 509).
\<close>

fun fadeOut :: "action \<Rightarrow> bool" where
  "fadeOut (ConnectionStatusHide els message) = True"
| "fadeOut (ToastHide toast) = True"
| "fadeOut (ChatStatusFade els message) = True"
| "fadeOut (ChatStatusHide els message) = True"
| "fadeOut (ResizeDeferred els) = False"
| "fadeOut (CopyCodeRestore buttonElement originalHTML) = False"
| "fadeOut (CopyMessageRestore buttonElement originalSVGCopy newSVG) = False"

text \<open>The element table of a page on which every single lookup gave null.\<close>

definition emptyPage :: elements where
  "emptyPage = \<lparr>tabs = [], tabContents = [], settingsNavBtns = [], settingsSubContents = [],
     chatMessages = None, connectionStatus = None, connectionIndicator = None,
     contextStatus = None, userInput = None, sendMessage = None, toggleApiKey = None,
     apiKeyInput = None, chatStatusMessage = None\<rparr>"

text \<open>A message element as \<^verbatim>\<open>addMessageToChat\<close> leaves it when streaming starts.\<close>

definition sampleMessage :: node where
  "sampleMessage =
     setAttribute ''data-message-id'' ''m1''
       (classList_add ''bot-message'' (classList_add ''message'' (createElement ''div'')))"

text \<open>The options of \<^verbatim>\<open>addMessageToChat\<close> at their defaults (line 74).\<close>

definition defaultOptions :: options where
  "defaultOptions =
     \<lparr>opt_isStreaming = False, images = [], insertAfterElement = None, forceScroll = False\<rparr>"

text \<open>
  Two connection messages with the same text, the first a success and the second an error
  shown while the timer of the first is pending.
\<close>

definition savedTwice :: world where
  "savedTwice =
     showConnectionStatus ''Saved'' ''error'' page
       (showConnectionStatus ''Saved'' ''success'' page pageWorld)"

section \<open>Properties\<close>

subsection \<open>Class lists and loops over references\<close>


lemma classList_toggle_contains [simp]:
  "classList_contains (classList_toggle c force n) c \<longleftrightarrow> force"
  by (simp add: classList_toggle_def classList_add_def classList_remove_def
      classList_contains_def map_props_def)

lemma classList_toggle_dataset [simp]:
  "dataset (classList_toggle c force n) k = dataset n k"
  by (simp add: classList_toggle_def classList_add_def classList_remove_def
      dataset_def getAttribute_def map_props_def)

lemma classList_toggle_ident [simp]:
  "ident (props (classList_toggle c force n)) = ident (props n)"
  by (simp add: classList_toggle_def classList_add_def classList_remove_def map_props_def)

lemma classList_toggle_twice [simp]:
  "classList_toggle c b (classList_toggle c b n) = classList_toggle c b n"
  by (simp add: classList_toggle_def classList_add_def classList_remove_def map_props_def)

lemma heap_forEach_el_notin:
  "r \<notin> set rs \<Longrightarrow> heap (forEach_el f rs w) r = heap w r"
  unfolding forEach_el_def
  by (induction rs arbitrary: w) (auto simp: update_el_def)

lemma heap_fold_update_el:
  fixes w :: world
  assumes idem: "\<And>n. f (f n) = f n"
  shows "heap w r = f (heap w r) \<or> r \<in> set rs
          \<Longrightarrow> heap (fold (\<lambda>r. update_el r f) rs w) r = f (heap w r)"
proof (induction rs arbitrary: w)
  case Nil
  then show ?case by simp
next
  case (Cons a rs)
  let ?w' = "update_el a f w"
  have step: "heap ?w' r = f (heap ?w' r) \<or> r \<in> set rs"
    using Cons.prems idem by (auto simp: update_el_def)
  have same: "f (heap ?w' r) = f (heap w r)"
    using idem by (simp add: update_el_def)
  from Cons.IH [OF step] same show ?case by simp
qed

lemma heap_forEach_el_in:
  assumes idem: "\<And>n. f (f n) = f n" and mem: "r \<in> set rs"
  shows "heap (forEach_el f rs w) r = f (heap w r)"
  unfolding forEach_el_def using heap_fold_update_el [of f w r rs] idem mem by blast

lemma heap_forEach_toggle_attr:
  assumes "r \<in> set rs"
  shows "heap (forEach_el (\<lambda>n. classList_toggle c (dataset n k = v) n) rs w) r
           = classList_toggle c (dataset (heap w r) k = v) (heap w r)"
  by (rule heap_forEach_el_in [OF _ assms]) simp

lemma heap_forEach_toggle_ident:
  assumes "r \<in> set rs"
  shows "heap (forEach_el (\<lambda>n. classList_toggle c (ident (props n) = v) n) rs w) r
           = classList_toggle c (ident (props (heap w r)) = v) (heap w r)"
  by (rule heap_forEach_el_in [OF _ assms]) simp

lemma switchSettingsSubTab_nav:
  assumes "r \<in> set (settingsNavBtns els)" "r \<notin> set (settingsSubContents els)"
  shows "heap (switchSettingsSubTab s els w) r
           = classList_toggle ''active'' (dataset (heap w r) ''subtab'' = Some s) (heap w r)"
  using assms
  by (simp add: switchSettingsSubTab_def Let_def heap_forEach_el_notin heap_forEach_toggle_attr)

lemma switchSettingsSubTab_content:
  assumes "r \<in> set (settingsSubContents els)"
  shows "classList_contains (heap (switchSettingsSubTab s els w) r) ''active''
           \<longleftrightarrow> ident (props (heap (switchSettingsSubTab s els w) r)) = ''settings-'' @ s"
proof -
  let ?w1 = "forEach_el (\<lambda>btn. classList_toggle ''active'' (dataset btn ''subtab'' = Some s) btn)
               (settingsNavBtns els) w"
  have "heap (switchSettingsSubTab s els w) r
          = classList_toggle ''active'' (ident (props (heap ?w1 r)) = ''settings-'' @ s) (heap ?w1 r)"
    using assms by (simp add: switchSettingsSubTab_def Let_def heap_forEach_toggle_ident)
  then show ?thesis by simp
qed

lemma switchSettingsSubTab_frame:
  assumes "r \<notin> set (settingsNavBtns els)" "r \<notin> set (settingsSubContents els)"
  shows "heap (switchSettingsSubTab s els w) r = heap w r"
  using assms by (simp add: switchSettingsSubTab_def Let_def heap_forEach_el_notin)


lemma toggleTabs_tab:
  assumes "r \<in> set (tabs els)" "r \<notin> set (tabContents els)"
  shows "heap (toggleTabs tabId els w) r
           = classList_toggle ''active'' (dataset (heap w r) ''tab'' = Some tabId) (heap w r)"
  using assms
  by (simp add: toggleTabs_def Let_def heap_forEach_el_notin heap_forEach_toggle_attr)

lemma toggleTabs_content:
  assumes "r \<in> set (tabContents els)"
  shows "classList_contains (heap (toggleTabs tabId els w) r) ''active''
           \<longleftrightarrow> ident (props (heap (toggleTabs tabId els w) r)) = tabId"
proof -
  let ?w1 = "forEach_el (\<lambda>tab. classList_toggle ''active'' (dataset tab ''tab'' = Some tabId) tab)
               (tabs els) w"
  have "heap (toggleTabs tabId els w) r
          = classList_toggle ''active'' (ident (props (heap ?w1 r)) = tabId) (heap ?w1 r)"
    using assms by (simp add: toggleTabs_def Let_def heap_forEach_toggle_ident)
  then show ?thesis by simp
qed

lemma toggleTabs_frame:
  assumes "r \<notin> set (tabs els)" "r \<notin> set (tabContents els)"
  shows "heap (toggleTabs tabId els w) r = heap w r"
  using assms by (simp add: toggleTabs_def Let_def heap_forEach_el_notin)

lemma switchTab_cases:
  "switchTab tabId els cb w = toggleTabs tabId els w
   \<or> (tabId = ''settings'' \<and> switchTab tabId els cb w = cb ''general'' (toggleTabs tabId els w))"
  by (simp add: switchTab_def Let_def split: option.splits)

text \<open>
  C1. After \<^verbatim>\<open>switchTab\<close>, a tab carries the class \<^verbatim>\<open>active\<close> exactly when its
  \<^verbatim>\<open>dataset.tab\<close> is the requested tab and a tab pane exactly when its id is; after
  \<^verbatim>\<open>switchSettingsSubTab\<close>, a settings button exactly when its \<^verbatim>\<open>dataset.subtab\<close> is the
  requested sub-tab and a settings pane exactly when its id is \<^verbatim>\<open>settings-\<close> followed by it.
  So within the collections no other element keeps or gains the class. Elements outside
  the collections are left as they were by the two loops; \<^verbatim>\<open>switchTab\<close> does nothing beyond
  its loops except for calling the function it was given with \<^verbatim>\<open>'general'\<close>. The tabs and
  the panes are distinct elements, and the function given to \<^verbatim>\<open>switchTab\<close> leaves them alone.
\<close>

theorem switchTab_active_iff:
  assumes tabs_apart: "set (tabs els) \<inter> set (tabContents els) = {}"
    and subs_apart: "set (settingsNavBtns els) \<inter> set (settingsSubContents els) = {}"
    and cb_frame: "\<forall>v. \<forall>r \<in> set (tabs els) \<union> set (tabContents els).
                      heap (cb ''general'' v) r = heap v r"
  shows "(\<forall>r \<in> set (tabs els).
            classList_contains (heap (switchTab tabId els cb w) r) ''active''
              \<longleftrightarrow> dataset (heap (switchTab tabId els cb w) r) ''tab'' = Some tabId)
       \<and> (\<forall>r \<in> set (tabContents els).
            classList_contains (heap (switchTab tabId els cb w) r) ''active''
              \<longleftrightarrow> ident (props (heap (switchTab tabId els cb w) r)) = tabId)
       \<and> (switchTab tabId els cb w = toggleTabs tabId els w
            \<or> tabId = ''settings''
              \<and> switchTab tabId els cb w = cb ''general'' (toggleTabs tabId els w))
       \<and> (\<forall>r. r \<notin> set (tabs els) \<union> set (tabContents els)
            \<longrightarrow> heap (toggleTabs tabId els w) r = heap w r)
       \<and> (\<forall>r \<in> set (settingsNavBtns els).
            classList_contains (heap (switchSettingsSubTab subTabId els w) r) ''active''
              \<longleftrightarrow> dataset (heap (switchSettingsSubTab subTabId els w) r) ''subtab''
                    = Some subTabId)
       \<and> (\<forall>r \<in> set (settingsSubContents els).
            classList_contains (heap (switchSettingsSubTab subTabId els w) r) ''active''
              \<longleftrightarrow> ident (props (heap (switchSettingsSubTab subTabId els w) r))
                    = ''settings-'' @ subTabId)
       \<and> (\<forall>r. r \<notin> set (settingsNavBtns els) \<union> set (settingsSubContents els)
            \<longrightarrow> heap (switchSettingsSubTab subTabId els w) r = heap w r)"
proof -
  let ?t = "toggleTabs tabId els w"
  have same: "heap (switchTab tabId els cb w) r = heap ?t r"
    if "r \<in> set (tabs els) \<union> set (tabContents els)" for r
    using switchTab_cases [of tabId els cb w] cb_frame that by auto
  have c1: "\<forall>r \<in> set (tabs els).
            classList_contains (heap (switchTab tabId els cb w) r) ''active''
              \<longleftrightarrow> dataset (heap (switchTab tabId els cb w) r) ''tab'' = Some tabId"
  proof
    fix r assume r: "r \<in> set (tabs els)"
    then have "r \<notin> set (tabContents els)" using tabs_apart by auto
    with r show "classList_contains (heap (switchTab tabId els cb w) r) ''active''
              \<longleftrightarrow> dataset (heap (switchTab tabId els cb w) r) ''tab'' = Some tabId"
      by (simp add: same toggleTabs_tab)
  qed
  have c2: "\<forall>r \<in> set (tabContents els).
            classList_contains (heap (switchTab tabId els cb w) r) ''active''
              \<longleftrightarrow> ident (props (heap (switchTab tabId els cb w) r)) = tabId"
    by (simp add: same toggleTabs_content)
  have c5: "\<forall>r \<in> set (settingsNavBtns els).
            classList_contains (heap (switchSettingsSubTab subTabId els w) r) ''active''
              \<longleftrightarrow> dataset (heap (switchSettingsSubTab subTabId els w) r) ''subtab''
                    = Some subTabId"
  proof
    fix r assume r: "r \<in> set (settingsNavBtns els)"
    then have "r \<notin> set (settingsSubContents els)" using subs_apart by auto
    with r show "classList_contains (heap (switchSettingsSubTab subTabId els w) r) ''active''
              \<longleftrightarrow> dataset (heap (switchSettingsSubTab subTabId els w) r) ''subtab''
                    = Some subTabId"
      by (simp add: switchSettingsSubTab_nav)
  qed
  show ?thesis
    using c1 c2 c5 switchTab_cases [of tabId els cb w]
    by (simp add: toggleTabs_frame switchSettingsSubTab_content switchSettingsSubTab_frame)
qed

lemma page_simps:
  "tabs page = [0, 1]" "tabContents page = [2, 3]" "settingsNavBtns page = [4, 5]"
  "settingsSubContents page = [6, 7]"
  by (simp_all add: page_def)




theorem switchTab_active_iff_witness:
  "set (tabs page) \<inter> set (tabContents page) = {}
   \<and> set (settingsNavBtns page) \<inter> set (settingsSubContents page) = {}
   \<and> (\<forall>v. list_all (\<lambda>r. heap (switchSettingsSubTab ''general'' page v) r = heap v r)
               (tabs page @ tabContents page))
   \<and> list_all
        (\<lambda>r. classList_contains
               (heap (switchTab ''settings'' page (\<lambda>s. switchSettingsSubTab s page) pageWorld) r)
               ''active''
             \<longleftrightarrow> dataset
                   (heap (switchTab ''settings'' page (\<lambda>s. switchSettingsSubTab s page) pageWorld)
                      r)
                   ''tab'' = Some ''settings'')
        (tabs page)
   \<and> list_all
        (\<lambda>r. classList_contains (heap (switchSettingsSubTab ''model'' page pageWorld) r) ''active''
             \<longleftrightarrow> dataset (heap (switchSettingsSubTab ''model'' page pageWorld) r) ''subtab''
                   = Some ''model'')
        (settingsNavBtns page)
   \<and> map (\<lambda>r. classes (props
              (heap (switchTab ''settings'' page (\<lambda>s. switchSettingsSubTab s page) pageWorld) r)))
         [0, 1, 2, 3, 4, 5, 6, 7]
       = [[], [''active''], [], [''active''], [''settings-nav-btn'', ''active''],
          [''settings-nav-btn''], [''active''], []]"
proof -
  have h1: "set (tabs page) \<inter> set (tabContents page) = {}" by (simp add: page_simps)
  have h2: "set (settingsNavBtns page) \<inter> set (settingsSubContents page) = {}"
    by (simp add: page_simps)
  have h3: "\<forall>v. \<forall>r \<in> set (tabs page) \<union> set (tabContents page).
          heap (switchSettingsSubTab ''general'' page v) r = heap v r"
    by (auto simp: page_simps switchSettingsSubTab_frame)
  have run: "map (\<lambda>r. classes (props
              (heap (switchTab ''settings'' page (\<lambda>s. switchSettingsSubTab s page) pageWorld) r)))
         [0, 1, 2, 3, 4, 5, 6, 7]
       = [[], [''active''], [], [''active''], [''settings-nav-btn'', ''active''],
          [''settings-nav-btn''], [''active''], []]"
    by code_simp
  note main = switchTab_active_iff [where els = page
      and cb = "\<lambda>s. switchSettingsSubTab s page" and tabId = "''settings''"
      and w = pageWorld and subTabId = "''model''", OF h1 h2 h3]
  have g3: "\<forall>v. list_all (\<lambda>r. heap (switchSettingsSubTab ''general'' page v) r = heap v r)
               (tabs page @ tabContents page)"
    using h3 by (simp add: list_all_iff)
  have g4: "list_all
        (\<lambda>r. classList_contains
               (heap (switchTab ''settings'' page (\<lambda>s. switchSettingsSubTab s page) pageWorld) r)
               ''active''
             \<longleftrightarrow> dataset
                   (heap (switchTab ''settings'' page (\<lambda>s. switchSettingsSubTab s page) pageWorld)
                      r)
                   ''tab'' = Some ''settings'')
        (tabs page)"
    unfolding list_all_iff using main by (rule conjunct1)
  have g5: "list_all
        (\<lambda>r. classList_contains (heap (switchSettingsSubTab ''model'' page pageWorld) r) ''active''
             \<longleftrightarrow> dataset (heap (switchSettingsSubTab ''model'' page pageWorld) r) ''subtab''
                   = Some ''model'')
        (settingsNavBtns page)"
    unfolding list_all_iff
    using main [THEN conjunct2, THEN conjunct2, THEN conjunct2, THEN conjunct2, THEN conjunct1]
    by this
  from h1 h2 g3 g4 g5 run show ?thesis by (intro conjI)
qed

subsection \<open>The store, styles and timers\<close>

lemma get_style_set_style [simp]:
  "get_style (set_style k v n) k' = (if k' = k then Some v else get_style n k')"
  by (simp add: get_style_def set_style_def map_props_def update_conv')

lemma heap_update_el [simp]:
  "heap (update_el r f w) = (heap w)(r := f (heap w r))"
  by (simp add: update_el_def)

lemma update_el_other [simp]:
  "document (update_el r f w) = document w" "childRefs (update_el r f w) = childRefs w"
  "parentNode (update_el r f w) = parentNode w" "fresh (update_el r f w) = fresh w"
  "timers (update_el r f w) = timers w" "isStreaming (update_el r f w) = isStreaming w"
  "GeminiAPI (update_el r f w) = GeminiAPI w" "idCalls (update_el r f w) = idCalls w"
  "documentLang (update_el r f w) = documentLang w"
  "documentTitle (update_el r f w) = documentTitle w"
  by (simp_all add: update_el_def)

lemma update_el_twice:
  "update_el r g (update_el r f w) = update_el r (\<lambda>n. g (f n)) w"
  by (simp add: update_el_def)

lemma timers_setTimeout [simp]:
  "timers (setTimeout a d w) = timers w @ [(d, a)]" "heap (setTimeout a d w) = heap w"
  by (simp_all add: setTimeout_def)

lemma timers_forEach_el [simp]: "timers (forEach_el f rs w) = timers w"
  unfolding forEach_el_def by (induction rs arbitrary: w) simp_all

subsection \<open>The copy button of a code block\<close>

lemma copyCodeClick_absent:
  "getAttribute block ''data-code'' = None \<Longrightarrow> copyCodeClick X block = codeFallback X block"
  by (simp add: copyCodeClick_def)

lemma copyCodeClick_throws:
  "getAttribute block ''data-code'' = Some enc \<Longrightarrow>
   Option.bind (atob X enc) (decodeURIComponent X) = None \<Longrightarrow>
   copyCodeClick X block = codeFallback X block"
  by (simp add: copyCodeClick_def)

lemma codeFallback_eq:
  "codeFallback X block =
     (case querySelector_tag ''code'' block of None \<Rightarrow> [] | Some code \<Rightarrow> innerText X code)"
  by (simp add: codeFallback_def split: option.splits)

text \<open>
  C2. In the click listener of the copy button, when the block has no \<^verbatim>\<open>data-code\<close>
  attribute, or when \<^verbatim>\<open>atob\<close> or \<^verbatim>\<open>decodeURIComponent\<close> throws on it, the text handed to
  \<^verbatim>\<open>copyCodeToClipboardCallback\<close> is the \<^verbatim>\<open>innerText\<close> of the first \<^verbatim>\<open>code\<close> element below
  the block, and the empty string when there is none.
\<close>

theorem copyCodeClick_fallback:
  assumes "getAttribute block ''data-code'' = None
           \<or> (\<exists>enc. getAttribute block ''data-code'' = Some enc
                  \<and> (atob X enc = None
                      \<or> (\<exists>bytes. atob X enc = Some bytes \<and> decodeURIComponent X bytes = None)))"
  shows "copyCodeClick X block =
           (case querySelector_tag ''code'' block of
              None \<Rightarrow> []
            | Some code \<Rightarrow> innerText X code)"
proof -
  from assms have "copyCodeClick X block = codeFallback X block"
  proof (elim disjE exE conjE)
    assume "getAttribute block ''data-code'' = None"
    then show ?thesis by (rule copyCodeClick_absent)
  next
    fix enc assume "getAttribute block ''data-code'' = Some enc" "atob X enc = None"
    then show ?thesis by (simp add: copyCodeClick_throws)
  next
    fix enc bytes
    assume "getAttribute block ''data-code'' = Some enc" "atob X enc = Some bytes"
      "decodeURIComponent X bytes = None"
    then show ?thesis by (simp add: copyCodeClick_throws)
  qed
  then show ?thesis by (simp add: codeFallback_eq)
qed

theorem copyCodeClick_fallback_witness:
  "getAttribute brokenBlock ''data-code'' = Some ''%%%'' \<and> atob plain ''%%%'' = None
   \<and> copyCodeClick plain brokenBlock = ''x = 1''
   \<and> getAttribute (createElement ''pre'') ''data-code'' = None
   \<and> copyCodeClick plain (createElement ''pre'') = []"
proof -
  have a: "getAttribute brokenBlock ''data-code'' = Some ''%%%''" by code_simp
  have b: "atob plain ''%%%'' = None" by (simp add: plain_def)
  have c: "querySelector_tag ''code'' brokenBlock
             = Some (set_textContent ''x = 1'' (createElement ''code''))" by code_simp
  have d: "innerText plain (set_textContent ''x = 1'' (createElement ''code'')) = ''x = 1''"
    by code_simp
  have e: "getAttribute (createElement ''pre'') ''data-code'' = None" by code_simp
  have f: "querySelector_tag ''code'' (createElement ''pre'') = None" by code_simp
  have "copyCodeClick plain brokenBlock = ''x = 1''"
    using copyCodeClick_fallback [of brokenBlock plain] a b c d by simp
  moreover have "copyCodeClick plain (createElement ''pre'') = []"
    using copyCodeClick_fallback [of "createElement ''pre''" plain] e f by simp
  ultimately show ?thesis using a b e by simp
qed

subsection \<open>Null checks\<close>

text \<open>
  C3, as amended. Each of \<^verbatim>\<open>showConnectionStatus\<close>, \<^verbatim>\<open>updateConnectionIndicator\<close>,
  \<^verbatim>\<open>updateContextStatus\<close>, \<^verbatim>\<open>resizeTextarea\<close>, \<^verbatim>\<open>setupAutoresizeTextarea\<close>,
  \<^verbatim>\<open>toggleApiKeyVisibility\<close> and \<^verbatim>\<open>showChatStatusMessage\<close> returns with the whole
  environment unchanged when the element it works on is null.
\<close>

theorem null_guards:
  "(connectionStatus els = None \<longrightarrow> showConnectionStatus message type els w = w)
   \<and> (connectionIndicator els = None \<longrightarrow> updateConnectionIndicator X isConnected els tr w = w)
   \<and> (contextStatus els = None \<longrightarrow> updateContextStatus X key replacements els tr w = w)
   \<and> (userInput els = None \<longrightarrow> resizeTextarea X els w = w \<and> setupAutoresizeTextarea els w = w)
   \<and> (toggleApiKey els = None \<or> apiKeyInput els = None \<longrightarrow> toggleApiKeyVisibility els w = w)
   \<and> (chatStatusMessage els = None \<longrightarrow> showChatStatusMessage message type els w = w)"
  by (auto simp: showConnectionStatus_def updateConnectionIndicator_def updateContextStatus_def
      resizeTextarea_def setupAutoresizeTextarea_def toggleApiKeyVisibility_def
      showChatStatusMessage_def split: option.splits)

theorem null_guards_witness:
  "connectionStatus emptyPage = None \<and> connectionIndicator emptyPage = None
   \<and> contextStatus emptyPage = None \<and> userInput emptyPage = None
   \<and> toggleApiKey emptyPage = None \<and> chatStatusMessage emptyPage = None
   \<and> showConnectionStatus ''ok'' ''success'' emptyPage pageWorld = pageWorld
   \<and> updateConnectionIndicator plain True emptyPage [] pageWorld = pageWorld
   \<and> updateContextStatus plain ''contextStatusNone'' [] emptyPage [] pageWorld = pageWorld
   \<and> resizeTextarea plain emptyPage pageWorld = pageWorld
   \<and> setupAutoresizeTextarea emptyPage pageWorld = pageWorld
   \<and> toggleApiKeyVisibility emptyPage pageWorld = pageWorld
   \<and> showChatStatusMessage ''ok'' ''success'' emptyPage pageWorld = pageWorld"
proof -
  have h: "connectionStatus emptyPage = None" "connectionIndicator emptyPage = None"
    "contextStatus emptyPage = None" "userInput emptyPage = None"
    "toggleApiKey emptyPage = None" "chatStatusMessage emptyPage = None"
    by (simp_all add: emptyPage_def)
  from null_guards [of emptyPage "''ok''" "''success''" pageWorld plain True "[]"
      "''contextStatusNone''" "[]"] h
  show ?thesis by simp
qed

text \<open>
  The null check is not made by every function that reads an entry of the element table:
  \<^verbatim>\<open>restoreSendButtonAndInput\<close> with a null \<^verbatim>\<open>elements.sendMessage\<close> clears
  \<^verbatim>\<open>state.isStreaming\<close> and then throws.
\<close>

theorem unguarded_sendMessage_counterexample:
  "sendMessage (page\<lparr>sendMessage := None\<rparr>) = None
   \<and> restoreSendButtonAndInput plain (page\<lparr>sendMessage := None\<rparr>) [] 1 2 streamingWorld
       = (Threw, streamingWorld\<lparr>isStreaming := False\<rparr>)
   \<and> isStreaming (streamingWorld\<lparr>isStreaming := False\<rparr>) \<noteq> isStreaming streamingWorld"
  by (simp add: restoreSendButtonAndInput_def streamingWorld_def)

subsection \<open>The height of the input\<close>

text \<open>
  C8. With the textarea present, \<^verbatim>\<open>resizeTextarea\<close> leaves the height style at \<open>N\<close> followed
  by \<^verbatim>\<open>px\<close>, where \<open>N\<close> is the scroll height (read after the height was reset to \<^verbatim>\<open>auto\<close>)
  clamped between the minimum and the maximum height. The minimum is what \<^verbatim>\<open>parseFloat\<close>
  gives for the computed \<^verbatim>\<open>min-height\<close>, and 32 when that is NaN or zero; the maximum is
  what it gives for the computed \<^verbatim>\<open>max-height\<close>, and 160 when that is NaN or zero.
  \<^verbatim>\<open>overflowY\<close> is \<^verbatim>\<open>scroll\<close> exactly when the scroll height exceeds the maximum and
  \<^verbatim>\<open>hidden\<close> otherwise; and \<open>N\<close> lies between the minimum and the maximum when these are
  in order.
\<close>

theorem resizeTextarea_clamps:
  assumes present: "userInput els = Some textarea"
  shows "let ta = set_style ''height'' ''auto'' (heap w textarea);
             sh = scrollHeight X ta;
             minHeight = (case parseFloat X (getComputedStyle X ta ''minHeight'') of
                            None \<Rightarrow> 32
                          | Some parsed \<Rightarrow> if parsed = 0 then 32 else parsed);
             maxHeight = (case parseFloat X (getComputedStyle X ta ''maxHeight'') of
                            None \<Rightarrow> 160
                          | Some parsed \<Rightarrow> if parsed = 0 then 160 else parsed);
             N = min (max sh minHeight) maxHeight;
             ta' = heap (resizeTextarea X els w) textarea
         in get_style ta' ''height'' = Some (numberToString X N @ ''px'')
            \<and> (get_style ta' ''overflowY'' = Some ''scroll'' \<longleftrightarrow> sh > maxHeight)
            \<and> (get_style ta' ''overflowY'' = Some ''hidden'' \<longleftrightarrow> \<not> sh > maxHeight)
            \<and> (minHeight \<le> maxHeight \<longrightarrow> minHeight \<le> N \<and> N \<le> maxHeight)"
  using present
  by (simp add: resizeTextarea_def or_default_def Let_def max.commute)

theorem resizeTextarea_clamps_witness:
  "userInput page = Some 12
   \<and> parseFloat plain
         (getComputedStyle plain (set_style ''height'' ''auto'' (heap pageWorld 12)) ''minHeight'')
       = None
   \<and> parseFloat plain
         (getComputedStyle plain (set_style ''height'' ''auto'' (heap pageWorld 12)) ''maxHeight'')
       = None
   \<and> get_style (heap (resizeTextarea plain page pageWorld) 12) ''height'' = Some ''160px''
   \<and> get_style (heap (resizeTextarea plain page pageWorld) 12) ''overflowY'' = Some ''scroll''
   \<and> parseFloat styled
         (getComputedStyle styled (set_style ''height'' ''auto'' (heap pageWorld 12)) ''minHeight'')
       = Some 40
   \<and> parseFloat styled
         (getComputedStyle styled (set_style ''height'' ''auto'' (heap pageWorld 12)) ''maxHeight'')
       = Some 120
   \<and> get_style (heap (resizeTextarea styled page pageWorld) 12) ''height'' = Some ''80px''
   \<and> get_style (heap (resizeTextarea styled page pageWorld) 12) ''overflowY'' = Some ''hidden''
   \<and> parseFloat zeroed
         (getComputedStyle zeroed (set_style ''height'' ''auto'' (heap pageWorld 12)) ''minHeight'')
       = Some 0
   \<and> parseFloat zeroed
         (getComputedStyle zeroed (set_style ''height'' ''auto'' (heap pageWorld 12)) ''maxHeight'')
       = Some 0
   \<and> get_style (heap (resizeTextarea zeroed page pageWorld) 12) ''height'' = Some ''32px''
   \<and> get_style (heap (resizeTextarea zeroed page pageWorld) 12) ''overflowY'' = Some ''hidden''"
proof -
  let ?ta = "set_style ''height'' ''auto'' (heap pageWorld 12)"
  have p: "userInput page = Some 12" by (simp add: page_def)
  have x: "scrollHeight plain ?ta = 200"
    "parseFloat plain (getComputedStyle plain ?ta ''minHeight'') = None"
    "parseFloat plain (getComputedStyle plain ?ta ''maxHeight'') = None"
    "numberToString plain 160 = ''160''"
    by (simp_all add: plain_def)
  have y: "scrollHeight styled ?ta = 80"
    "parseFloat styled (getComputedStyle styled ?ta ''minHeight'') = Some 40"
    "parseFloat styled (getComputedStyle styled ?ta ''maxHeight'') = Some 120"
    "numberToString styled 80 = ''80''"
    by (simp_all add: styled_def)
  have z: "scrollHeight zeroed ?ta = 10"
    "parseFloat zeroed (getComputedStyle zeroed ?ta ''minHeight'') = Some 0"
    "parseFloat zeroed (getComputedStyle zeroed ?ta ''maxHeight'') = Some 0"
    "numberToString zeroed 32 = ''32''"
    by (simp_all add: zeroed_def)
  have a: "get_style (heap (resizeTextarea plain page pageWorld) 12) ''height'' = Some ''160px''
     \<and> get_style (heap (resizeTextarea plain page pageWorld) 12) ''overflowY'' = Some ''scroll''"
    using resizeTextarea_clamps [OF p, of pageWorld plain] by (simp add: Let_def x)
  have b: "get_style (heap (resizeTextarea styled page pageWorld) 12) ''height'' = Some ''80px''
     \<and> get_style (heap (resizeTextarea styled page pageWorld) 12) ''overflowY'' = Some ''hidden''"
    using resizeTextarea_clamps [OF p, of pageWorld styled] by (simp add: Let_def y)
  have c: "get_style (heap (resizeTextarea zeroed page pageWorld) 12) ''height'' = Some ''32px''
     \<and> get_style (heap (resizeTextarea zeroed page pageWorld) 12) ''overflowY'' = Some ''hidden''"
    using resizeTextarea_clamps [OF p, of pageWorld zeroed] by (simp add: Let_def z)
  from p x(2,3) a y(2,3) b z(2,3) c show ?thesis by simp
qed

subsection \<open>Restoring the send button\<close>

lemma restore_button:
  "addEventListener ''click'' (External send)
     (removeEventListener ''click'' (External abort)
        (set_innerHTML X sendIconHTML
           (set_title T (classList_remove ''stop-streaming'' n))))
   = Node (kind n)
     ((props n)\<lparr>classes := removeAll ''stop-streaming'' (classes (props n)),
                 attrs := AList.update ''title'' T (attrs (props n)),
                 listeners :=
                   (let ls = remove1 (''click'', External abort) (listeners (props n))
                    in if (''click'', External send) \<in> set ls then ls
                       else ls @ [(''click'', External send)])\<rparr>)
     (parseHTML X sendIconHTML)"
  by (simp add: addEventListener_def removeEventListener_def set_innerHTML_def set_title_def
      setAttribute_def classList_remove_def map_props_def Let_def)

text \<open>
  C10. After \<^verbatim>\<open>restoreSendButtonAndInput\<close>, \<^verbatim>\<open>state.isStreaming\<close> is false. When it was
  false already the call returns with the environment unchanged. When it was true and the
  send button exists, the call returns with exactly these changes: \<^verbatim>\<open>state.isStreaming\<close> is
  false; on the send button the class \<^verbatim>\<open>stop-streaming\<close> is gone, the title is the
  translation of \<^verbatim>\<open>sendMessageTitle\<close>, the content is the send icon, the abort listener is
  removed from the click listeners and the send listener is among them; and a non-null
  \<^verbatim>\<open>window.GeminiAPI.currentAbortController\<close> is null.
\<close>

theorem restoreSendButtonAndInput_effect:
  "isStreaming (snd (restoreSendButtonAndInput X els tr send abort w)) = False
   \<and> (\<not> isStreaming w \<longrightarrow> restoreSendButtonAndInput X els tr send abort w = (Returned (), w))
   \<and> (isStreaming w \<and> sendMessage els = Some button \<longrightarrow>
        restoreSendButtonAndInput X els tr send abort w =
          (Returned (),
           w\<lparr>heap := (heap w)(button :=
                 Node (kind (heap w button))
                   ((props (heap w button))
                      \<lparr>classes := removeAll ''stop-streaming'' (classes (props (heap w button))),
                        attrs := AList.update ''title'' (translate X ''sendMessageTitle'' [] tr)
                                   (attrs (props (heap w button))),
                        listeners :=
                          (let ls = remove1 (''click'', External abort)
                                      (listeners (props (heap w button)))
                           in if (''click'', External send) \<in> set ls then ls
                              else ls @ [(''click'', External send)])\<rparr>)
                   (parseHTML X sendIconHTML)),
             isStreaming := False,
             GeminiAPI := (case GeminiAPI w of
                             Some (Some controller) \<Rightarrow> Some None
                           | other \<Rightarrow> other)\<rparr>))"
proof (intro conjI impI)
  show "isStreaming (snd (restoreSendButtonAndInput X els tr send abort w)) = False"
    by (simp add: restoreSendButtonAndInput_def Let_def split: option.splits)
next
  assume "\<not> isStreaming w"
  then show "restoreSendButtonAndInput X els tr send abort w = (Returned (), w)"
    by (simp add: restoreSendButtonAndInput_def)
next
  assume a: "isStreaming w \<and> sendMessage els = Some button"
  let ?w = "w\<lparr>isStreaming := False\<rparr>"
  have chain: "update_el button (addEventListener ''click'' (External send))
          (update_el button (removeEventListener ''click'' (External abort))
            (update_el button (set_innerHTML X sendIconHTML)
              (update_el button (set_title (translate X ''sendMessageTitle'' [] tr))
                (update_el button (classList_remove ''stop-streaming'') ?w))))
        = ?w\<lparr>heap := (heap w)(button :=
                 Node (kind (heap w button))
                   ((props (heap w button))
                      \<lparr>classes := removeAll ''stop-streaming'' (classes (props (heap w button))),
                        attrs := AList.update ''title'' (translate X ''sendMessageTitle'' [] tr)
                                   (attrs (props (heap w button))),
                        listeners :=
                          (let ls = remove1 (''click'', External abort)
                                      (listeners (props (heap w button)))
                           in if (''click'', External send) \<in> set ls then ls
                              else ls @ [(''click'', External send)])\<rparr>)
                   (parseHTML X sendIconHTML))\<rparr>"
    unfolding update_el_twice
    by (simp add: update_el_def restore_button)
  show "restoreSendButtonAndInput X els tr send abort w =
          (Returned (),
           w\<lparr>heap := (heap w)(button :=
                 Node (kind (heap w button))
                   ((props (heap w button))
                      \<lparr>classes := removeAll ''stop-streaming'' (classes (props (heap w button))),
                        attrs := AList.update ''title'' (translate X ''sendMessageTitle'' [] tr)
                                   (attrs (props (heap w button))),
                        listeners :=
                          (let ls = remove1 (''click'', External abort)
                                      (listeners (props (heap w button)))
                           in if (''click'', External send) \<in> set ls then ls
                              else ls @ [(''click'', External send)])\<rparr>)
                   (parseHTML X sendIconHTML)),
             isStreaming := False,
             GeminiAPI := (case GeminiAPI w of
                             Some (Some controller) \<Rightarrow> Some None
                           | other \<Rightarrow> other)\<rparr>)"
    using a
    apply (simp add: restoreSendButtonAndInput_def)
    apply (simp only: Let_def chain)
    apply (simp split: option.splits)
    done
qed

theorem restoreSendButtonAndInput_effect_witness:
  "isStreaming streamingWorld \<and> sendMessage page = Some 13
   \<and> fst (restoreSendButtonAndInput plain page [] 3 2 streamingWorld) = Returned ()
   \<and> isStreaming (snd (restoreSendButtonAndInput plain page [] 3 2 streamingWorld)) = False
   \<and> GeminiAPI (snd (restoreSendButtonAndInput plain page [] 3 2 streamingWorld)) = Some None
   \<and> classes (props (heap (snd (restoreSendButtonAndInput plain page [] 3 2 streamingWorld)) 13)) = []
   \<and> listeners (props (heap (snd (restoreSendButtonAndInput plain page [] 3 2 streamingWorld)) 13))
       = [(''click'', External 3)]
   \<and> getAttribute (heap (snd (restoreSendButtonAndInput plain page [] 3 2 streamingWorld)) 13) ''title''
       = Some ''sendMessageTitle''
   \<and> restoreSendButtonAndInput plain page [] 3 2 pageWorld = (Returned (), pageWorld)"
proof -
  have h: "isStreaming streamingWorld" "sendMessage page = Some 13" "\<not> isStreaming pageWorld"
    by (simp_all add: streamingWorld_def page_def pageWorld_def)
  note t1 = restoreSendButtonAndInput_effect [of plain page "[]" 3 2 streamingWorld 13]
  note t2 = restoreSendButtonAndInput_effect [of plain page "[]" 3 2 pageWorld 13]
  from t1 h have r: "restoreSendButtonAndInput plain page [] 3 2 streamingWorld =
          (Returned (),
           streamingWorld\<lparr>heap := (heap streamingWorld)(13 :=
                 Node (kind (heap streamingWorld 13))
                   ((props (heap streamingWorld 13))
                      \<lparr>classes := removeAll ''stop-streaming'' (classes (props (heap streamingWorld 13))),
                        attrs := AList.update ''title'' (translate plain ''sendMessageTitle'' [] [])
                                   (attrs (props (heap streamingWorld 13))),
                        listeners :=
                          (let ls = remove1 (''click'', External 2)
                                      (listeners (props (heap streamingWorld 13)))
                           in if (''click'', External 3) \<in> set ls then ls
                              else ls @ [(''click'', External 3)])\<rparr>)
                   (parseHTML plain sendIconHTML)),
             isStreaming := False,
             GeminiAPI := (case GeminiAPI streamingWorld of
                             Some (Some controller) \<Rightarrow> Some None
                           | other \<Rightarrow> other)\<rparr>)"
    by blast
  have b: "heap streamingWorld 13 = addEventListener ''click'' (External 2)
                                         (classList_add ''stop-streaming'' (createElement ''button''))"
    "GeminiAPI streamingWorld = Some (Some 7)"
    by (simp_all add: streamingWorld_def)
  have c: "classes (props (addEventListener ''click'' (External 2)
                                         (classList_add ''stop-streaming'' (createElement ''button'')))) = [''stop-streaming'']"
    "listeners (props (addEventListener ''click'' (External 2)
                                         (classList_add ''stop-streaming'' (createElement ''button'')))) = [(''click'', External 2)]"
    "attrs (props (addEventListener ''click'' (External 2)
                                         (classList_add ''stop-streaming'' (createElement ''button'')))) = []"
    by code_simp+
  have d: "translate plain ''sendMessageTitle'' [] [] = ''sendMessageTitle''"
    by (simp add: translate_def)
  from t2 h have r2: "restoreSendButtonAndInput plain page [] 3 2 pageWorld = (Returned (), pageWorld)"
    by blast
  show ?thesis
    using h(1,2) r2 by (simp add: r b c d getAttribute_def)
qed

subsection \<open>Buttons are added once\<close>

lemma descendants_appendChild:
  "descendants (appendChild p c) = descendants p @ c # descendants c"
  by (cases p) (simp add: appendChild_def)

lemma kids_appendChild [simp]: "kids (appendChild p c) = kids p @ [c]"
  by (simp add: appendChild_def)

lemma dataset_appendChild [simp]: "dataset (appendChild p c) k = dataset p k"
  by (simp add: appendChild_def dataset_def getAttribute_def)

lemma kids_in_descendants: "set (kids n) \<subseteq> set (descendants n)"
  by (cases n) auto

lemma querySelector_class_None:
  "querySelector_class c n = None \<longleftrightarrow>
     filter (\<lambda>d. is_element d \<and> classList_contains d c) (descendants n) = []"
  by (auto simp: querySelector_class_def find_None_iff filter_empty_conv)

lemma querySelector_class_appended:
  "is_element b \<Longrightarrow> classList_contains b c \<Longrightarrow> querySelector_class c (appendChild p b) \<noteq> None"
  by (auto simp: querySelector_class_def find_None_iff descendants_appendChild)

lemma copy_button_built:
  assumes "querySelector_class ''code-copy-button'' block = None"
  shows "\<exists>b. addCopyButtonToCodeBlock X block tr cb = appendChild block b
             \<and> is_element b \<and> classList_contains b ''code-copy-button''
             \<and> filter (\<lambda>d. is_element d \<and> classList_contains d ''code-copy-button'')
                  (descendants b) = []"
  using assms
  by (simp add: addCopyButtonToCodeBlock_def Let_def appendChild_def addEventListener_def
      set_title_def setAttribute_def classList_add_def classList_contains_def createElement_def
      empty_props_def map_props_def is_element_def)

lemma class_tokens_message_actions: "class_tokens ''message-actions'' = [''message-actions'']"
  by code_simp

lemma actions_built:
  assumes "dataset m ''message-id'' = Some i" "i \<noteq> []"
    "querySelector_class ''message-actions'' m = None"
  shows "\<exists>g. addMessageActionButtons X m c tr a b d = appendChild m g
             \<and> is_element g \<and> classList_contains g ''message-actions''"
  using assms
  by (simp add: addMessageActionButtons_def Let_def appendChild_def set_className_def
      class_tokens_message_actions classList_contains_def createElement_def
      empty_props_def map_props_def is_element_def)

lemma addCopy_present:
  "querySelector_class ''code-copy-button'' block \<noteq> None
     \<Longrightarrow> addCopyButtonToCodeBlock X block tr cb = block"
  by (auto simp: addCopyButtonToCodeBlock_def)

lemma addCopy_twice:
  "addCopyButtonToCodeBlock X (addCopyButtonToCodeBlock X block tr cb) tr' cb'
     = addCopyButtonToCodeBlock X block tr cb"
proof (cases "querySelector_class ''code-copy-button'' block")
  case None
  from copy_button_built [OF None, of X tr cb] obtain b where
    b: "addCopyButtonToCodeBlock X block tr cb = appendChild block b"
      "is_element b" "classList_contains b ''code-copy-button''" by blast
  then show ?thesis by (simp add: addCopy_present querySelector_class_appended)
next
  case (Some x)
  then show ?thesis by (simp add: addCopy_present)
qed

lemma addCopy_count:
  assumes "querySelector_class ''code-copy-button'' block = None"
  shows "length (filter (\<lambda>d. is_element d \<and> classList_contains d ''code-copy-button'')
                   (descendants (addCopyButtonToCodeBlock X block tr cb))) = 1"
proof -
  from copy_button_built [OF assms, of X tr cb] obtain b where
    b: "addCopyButtonToCodeBlock X block tr cb = appendChild block b"
      "is_element b" "classList_contains b ''code-copy-button''"
      "filter (\<lambda>d. is_element d \<and> classList_contains d ''code-copy-button'')
                  (descendants b) = []" by blast
  from assms have "filter (\<lambda>d. is_element d \<and> classList_contains d ''code-copy-button'')
                  (descendants block) = []" by (simp add: querySelector_class_None)
  with b show ?thesis by (simp add: descendants_appendChild)
qed

lemma addActions_present:
  "querySelector_class ''message-actions'' m \<noteq> None
     \<Longrightarrow> addMessageActionButtons X m c tr a b d = m"
  by (auto simp: addMessageActionButtons_def split: option.splits)

lemma addActions_no_id:
  "dataset m ''message-id'' = None \<or> dataset m ''message-id'' = Some []
     \<Longrightarrow> addMessageActionButtons X m c tr a b d = m"
  by (auto simp: addMessageActionButtons_def)

lemma addActions_twice:
  "addMessageActionButtons X (addMessageActionButtons X m c tr a b d) c' tr' a' b' d'
     = addMessageActionButtons X m c tr a b d"
proof (cases "dataset m ''message-id'' = None \<or> dataset m ''message-id'' = Some []")
  case True
  then show ?thesis by (simp add: addActions_no_id)
next
  case False
  then obtain i where i: "dataset m ''message-id'' = Some i" "i \<noteq> []" by auto
  show ?thesis
  proof (cases "querySelector_class ''message-actions'' m")
    case None
    from actions_built [OF i None, of X c tr a b d] obtain g where
      "addMessageActionButtons X m c tr a b d = appendChild m g"
      "is_element g" "classList_contains g ''message-actions''" by blast
    then show ?thesis by (simp add: addActions_present querySelector_class_appended)
  next
    case (Some x)
    then show ?thesis by (simp add: addActions_present)
  qed
qed

lemma addActions_count:
  assumes "querySelector_class ''message-actions'' m = None"
  shows "length (filter (\<lambda>k. is_element k \<and> classList_contains k ''message-actions'')
                   (kids (addMessageActionButtons X m c tr a b d))) \<le> 1"
proof -
  from assms have none: "filter (\<lambda>d. is_element d \<and> classList_contains d ''message-actions'')
                  (descendants m) = []" by (simp add: querySelector_class_None)
  have k: "filter (\<lambda>d. is_element d \<and> classList_contains d ''message-actions'') (kids m) = []"
    using none kids_in_descendants [of m] by (auto simp: filter_empty_conv)
  show ?thesis
  proof (cases "dataset m ''message-id'' = None \<or> dataset m ''message-id'' = Some []")
    case True
    then show ?thesis by (simp add: addActions_no_id k)
  next
    case False
    then obtain i where i: "dataset m ''message-id'' = Some i" "i \<noteq> []" by auto
    from actions_built [OF i assms, of X c tr a b d] obtain g where
      "addMessageActionButtons X m c tr a b d = appendChild m g" by blast
    then show ?thesis by (simp add: k)
  qed
qed

text \<open>
  C9. A block that already has a \<^verbatim>\<open>.code-copy-button\<close> below it is returned unchanged by
  \<^verbatim>\<open>addCopyButtonToCodeBlock\<close>, and so is a message with a \<^verbatim>\<open>.message-actions\<close> below it
  by \<^verbatim>\<open>addMessageActionButtons\<close>; a second call of either function, with whatever
  arguments, changes nothing; a block without a button has exactly one after the call, a
  message without an action group has at most one among its children; and a message
  without \<^verbatim>\<open>dataset.messageId\<close> (missing or empty) is returned unchanged.
\<close>

theorem buttons_added_once:
  "(querySelector_class ''code-copy-button'' block \<noteq> None
      \<longrightarrow> addCopyButtonToCodeBlock X block tr cb = block)
   \<and> addCopyButtonToCodeBlock X (addCopyButtonToCodeBlock X block tr cb) tr' cb'
       = addCopyButtonToCodeBlock X block tr cb
   \<and> (querySelector_class ''code-copy-button'' block = None
      \<longrightarrow> length (filter (\<lambda>d. is_element d \<and> classList_contains d ''code-copy-button'')
                    (descendants (addCopyButtonToCodeBlock X block tr cb))) = 1)
   \<and> (querySelector_class ''message-actions'' m \<noteq> None
      \<longrightarrow> addMessageActionButtons X m c tr a b d = m)
   \<and> addMessageActionButtons X (addMessageActionButtons X m c tr a b d) c' tr' a' b' d'
       = addMessageActionButtons X m c tr a b d
   \<and> (querySelector_class ''message-actions'' m = None
      \<longrightarrow> length (filter (\<lambda>k. is_element k \<and> classList_contains k ''message-actions'')
                    (kids (addMessageActionButtons X m c tr a b d))) \<le> 1)
   \<and> (dataset m ''message-id'' = None \<or> dataset m ''message-id'' = Some []
      \<longrightarrow> addMessageActionButtons X m c tr a b d = m)"
  using addCopy_present [of block X tr cb] addCopy_twice [of X block tr cb tr' cb']
    addCopy_count [of block X tr cb] addActions_present [of m X c tr a b d]
    addActions_twice [of X m c tr a b d c' tr' a' b' d'] addActions_count [of m X c tr a b d]
    addActions_no_id [of m X c tr a b d]
  by (intro conjI impI) assumption+

theorem buttons_added_once_witness:
  "querySelector_class ''code-copy-button'' brokenBlock = None
   \<and> length (filter (\<lambda>d. is_element d \<and> classList_contains d ''code-copy-button'')
               (descendants (addCopyButtonToCodeBlock plain brokenBlock [] 5))) = 1
   \<and> addCopyButtonToCodeBlock plain (addCopyButtonToCodeBlock plain brokenBlock [] 5) [] 5
       = addCopyButtonToCodeBlock plain brokenBlock [] 5
   \<and> querySelector_class ''message-actions'' sampleMessage = None
   \<and> addMessageActionButtons plain
         (addMessageActionButtons plain sampleMessage ''hi'' [] 6 7 8) ''hi'' [] 6 7 8
       = addMessageActionButtons plain sampleMessage ''hi'' [] 6 7 8
   \<and> length (kids (addMessageActionButtons plain sampleMessage ''hi'' [] 6 7 8)) = 1
   \<and> dataset (createElement ''div'') ''message-id'' = None
   \<and> addMessageActionButtons plain (createElement ''div'') ''hi'' [] 6 7 8 = createElement ''div''"
proof -
  have h1: "querySelector_class ''code-copy-button'' brokenBlock = None" by code_simp
  have h2: "querySelector_class ''message-actions'' sampleMessage = None" by code_simp
  have h3: "dataset (createElement ''div'') ''message-id'' = None" by code_simp
  have k: "length (kids (addMessageActionButtons plain sampleMessage ''hi'' [] 6 7 8)) = 1"
    by code_simp
  note main = buttons_added_once [where block = brokenBlock and X = plain and tr = "[]"
      and cb = 5 and tr' = "[]" and cb' = 5 and m = sampleMessage and c = "''hi''" and a = 6
      and b = 7 and d = 8 and c' = "''hi''" and a' = 6 and b' = 7 and d' = 8]
  note none = buttons_added_once [where block = brokenBlock and X = plain and tr = "[]"
      and cb = 5 and tr' = "[]" and cb' = 5 and m = "createElement ''div''" and c = "''hi''"
      and a = 6 and b = 7 and d = 8 and c' = "''hi''" and a' = 6 and b' = 7 and d' = 8]
  from main h1 h2 none h3 k show ?thesis by simp
qed

subsection \<open>Rendering is delegated\<close>

lemma messageHTML_nonempty:
  "content \<noteq> [] \<Longrightarrow>
   messageHTML X (Some content) sender imgs tr =
     (if sender = ''user'' \<and> imgs \<noteq> [] then imagesHTML X tr imgs else []) @ render X content"
  by (simp add: messageHTML_def)

lemma updateStreamingMessage_kids:
  "kids (heap (updateStreamingMessage X m content near els w) m) =
     parseHTML X (render X content) @
     (case querySelector_class ''message-actions'' (heap w m) of None \<Rightarrow> [] | Some a \<Rightarrow> [a]) @
     [set_className ''streaming-cursor'' (createElement ''span'')]"
  by (simp add: updateStreamingMessage_def Let_def set_innerHTML_def split: option.splits)

lemma finalizeBotMessage_html:
  "\<exists>v. finalizeBotMessage X m content copy_cb actions_cb restore_cb near els w = restore_cb v
       \<and> heap v m =
           renderDynamicContent X els
             (actions_cb
                (forEach_matching (\<lambda>d. is_element d \<and> classList_contains d ''code-block'') copy_cb
                   (Node (kind (heap w m)) (props (heap w m)) (parseHTML X (render X content))))
                content)"
proof (cases "querySelector_class ''streaming-cursor'' (heap w m)")
  case None
  show ?thesis
    unfolding finalizeBotMessage_def Let_def None option.case
    by (rule exI, rule conjI, rule refl) (simp add: set_innerHTML_def)
next
  case (Some c)
  show ?thesis
    unfolding finalizeBotMessage_def Let_def Some option.case
    by (rule exI, rule conjI, rule refl) (simp add: set_innerHTML_def remove_descendant_def)
qed

lemma heap_attachToChat:
  "attachToChat a els r w = (c, w') \<Longrightarrow> heap w' = heap w"
  by (auto simp: attachToChat_def split: option.splits if_splits)

lemma addMessageToChat_html:
  assumes "addMessageToChat X content sender opts els tr copy_cb actions_cb near w = (Returned r, w')"
    and "\<not> opt_isStreaming opts"
  shows "heap w' r =
               renderDynamicContent X els
                 (actions_cb
                    (forEach_matching (\<lambda>d. is_element d \<and> classList_contains d ''code-block'')
                       copy_cb
                       (if sender = ''user'' \<and> images opts \<noteq> []
                        then forEach_matching
                               (\<lambda>d. is_element d \<and> classList_contains d ''message-image'')
                               (addEventListener ''click'' (ShowImageClick els))
                               (set_innerHTML X (messageHTML X content sender (images opts) tr)
                                  (setAttribute ''data-message-id'' (generateUniqueId X (idCalls w))
                                     (classList_add (sender @ ''-message'')
                                        (classList_add ''message'' (createElement ''div'')))))
                        else set_innerHTML X (messageHTML X content sender (images opts) tr)
                                  (setAttribute ''data-message-id'' (generateUniqueId X (idCalls w))
                                     (classList_add (sender @ ''-message'')
                                        (classList_add ''message'' (createElement ''div''))))))
                    (case content of None \<Rightarrow> [] | Some c \<Rightarrow> c))"
  using assms
  by (auto simp: addMessageToChat_def Let_def allocate_def
      split: prod.splits completion.splits dest!: heap_attachToChat)

lemma kids_set_innerHTML [simp]: "kids (set_innerHTML X html n) = parseHTML X html"
  by (simp add: set_innerHTML_def)


text \<open>
  C7. The markup of a message is what \<^verbatim>\<open>window.MarkdownRenderer.render\<close> returns for the
  content: in \<^verbatim>\<open>addMessageToChat\<close> (not streaming, content not empty) the string assigned
  to \<^verbatim>\<open>innerHTML\<close> is the rendering, after the image block when a user message has
  images, and the element is then handed to the callbacks; after
  \<^verbatim>\<open>updateStreamingMessage\<close> the children are the parsed rendering, then the
  \<^verbatim>\<open>.message-actions\<close> element that was there before, then the streaming cursor; in
  \<^verbatim>\<open>finalizeBotMessage\<close> the children are set to the parsed rendering before the
  callbacks run.
\<close>

theorem markdown_is_delegated:
  "(content \<noteq> [] \<longrightarrow>
      messageHTML X (Some content) sender imgs tr =
        (if sender = ''user'' \<and> imgs \<noteq> [] then imagesHTML X tr imgs else []) @ render X content)
   \<and> (addMessageToChat X (Some content) sender opts els tr copy_cb actions_cb near w
         = (Returned r, w') \<and> \<not> opt_isStreaming opts \<longrightarrow>
        heap w' r =
          renderDynamicContent X els
            (actions_cb
               (forEach_matching (\<lambda>d. is_element d \<and> classList_contains d ''code-block'')
                  copy_cb
                  (if sender = ''user'' \<and> images opts \<noteq> []
                   then forEach_matching
                          (\<lambda>d. is_element d \<and> classList_contains d ''message-image'')
                          (addEventListener ''click'' (ShowImageClick els))
                          (set_innerHTML X
                             (messageHTML X (Some content) sender (images opts) tr)
                             (setAttribute ''data-message-id'' (generateUniqueId X (idCalls w))
                                (classList_add (sender @ ''-message'')
                                   (classList_add ''message'' (createElement ''div'')))))
                   else set_innerHTML X
                          (messageHTML X (Some content) sender (images opts) tr)
                          (setAttribute ''data-message-id'' (generateUniqueId X (idCalls w))
                             (classList_add (sender @ ''-message'')
                                (classList_add ''message'' (createElement ''div''))))))
               content))
   \<and> kids (set_innerHTML X html n) = parseHTML X html
   \<and> kids (heap (updateStreamingMessage X m content near els w) m) =
        parseHTML X (render X content) @
        (case querySelector_class ''message-actions'' (heap w m) of
           None \<Rightarrow> []
         | Some a \<Rightarrow> [a]) @
        [set_className ''streaming-cursor'' (createElement ''span'')]
   \<and> (\<exists>v. finalizeBotMessage X m content copy_cb actions_cb restore_cb near els w = restore_cb v
          \<and> heap v m =
              renderDynamicContent X els
                (actions_cb
                   (forEach_matching (\<lambda>d. is_element d \<and> classList_contains d ''code-block'')
                      copy_cb
                      (Node (kind (heap w m)) (props (heap w m))
                         (parseHTML X (render X content))))
                   content))"
proof (intro conjI impI)
  assume "content \<noteq> []"
  then show "messageHTML X (Some content) sender imgs tr =
        (if sender = ''user'' \<and> imgs \<noteq> [] then imagesHTML X tr imgs else []) @ render X content"
    by (rule messageHTML_nonempty)
next
  assume a: "addMessageToChat X (Some content) sender opts els tr copy_cb actions_cb near w
         = (Returned r, w') \<and> \<not> opt_isStreaming opts"
  from addMessageToChat_html [OF a [THEN conjunct1] a [THEN conjunct2]]
  show "heap w' r =
          renderDynamicContent X els
            (actions_cb
               (forEach_matching (\<lambda>d. is_element d \<and> classList_contains d ''code-block'')
                  copy_cb
                  (if sender = ''user'' \<and> images opts \<noteq> []
                   then forEach_matching
                          (\<lambda>d. is_element d \<and> classList_contains d ''message-image'')
                          (addEventListener ''click'' (ShowImageClick els))
                          (set_innerHTML X
                             (messageHTML X (Some content) sender (images opts) tr)
                             (setAttribute ''data-message-id'' (generateUniqueId X (idCalls w))
                                (classList_add (sender @ ''-message'')
                                   (classList_add ''message'' (createElement ''div'')))))
                   else set_innerHTML X
                          (messageHTML X (Some content) sender (images opts) tr)
                          (setAttribute ''data-message-id'' (generateUniqueId X (idCalls w))
                             (classList_add (sender @ ''-message'')
                                (classList_add ''message'' (createElement ''div''))))))
               content)"
    by simp
next
  show "kids (set_innerHTML X html n) = parseHTML X html" by simp
next
  show "kids (heap (updateStreamingMessage X m content near els w) m) =
        parseHTML X (render X content) @
        (case querySelector_class ''message-actions'' (heap w m) of
           None \<Rightarrow> []
         | Some a \<Rightarrow> [a]) @
        [set_className ''streaming-cursor'' (createElement ''span'')]"
    by (rule updateStreamingMessage_kids)
next
  show "\<exists>v. finalizeBotMessage X m content copy_cb actions_cb restore_cb near els w = restore_cb v
          \<and> heap v m =
              renderDynamicContent X els
                (actions_cb
                   (forEach_matching (\<lambda>d. is_element d \<and> classList_contains d ''code-block'')
                      copy_cb
                      (Node (kind (heap w m)) (props (heap w m))
                         (parseHTML X (render X content))))
                   content)"
    by (rule finalizeBotMessage_html)
qed

theorem markdown_is_delegated_witness:
  "''hello'' \<noteq> []
   \<and> messageHTML plain (Some ''hello'') ''bot'' [] [] = ''hello''
   \<and> fst (addMessageToChat plain (Some ''hello'') ''bot'' defaultOptions page []
             (\<lambda>block. block) (\<lambda>message text. message) True pageWorld) = Returned 17
   \<and> kids (heap (snd (addMessageToChat plain (Some ''hello'') ''bot'' defaultOptions page []
                        (\<lambda>block. block) (\<lambda>message text. message) True pageWorld)) 17)
       = [Node (TextNode ''hello'') empty_props []]
   \<and> kids (heap (updateStreamingMessage plain 8 ''hello'' True page pageWorld) 8)
       = [Node (TextNode ''hello'') empty_props [],
          set_className ''streaming-cursor'' (createElement ''span'')]"
proof -
  let ?r = "addMessageToChat plain (Some ''hello'') ''bot'' defaultOptions page []
             (\<lambda>block. block) (\<lambda>message text. message) True pageWorld"
  have ne: "''hello'' \<noteq> []" by simp
  have f: "fst ?r = Returned 17" by code_simp
  then have eq: "?r = (Returned 17, snd ?r)" by (metis prod.collapse)
  have o: "\<not> opt_isStreaming defaultOptions" "images defaultOptions = []"
    by (simp_all add: defaultOptions_def)
  have q: "querySelector_class ''message-actions'' (heap pageWorld 8) = None" by code_simp
  have x: "render plain s = s" "parseHTML plain ''hello'' = [Node (TextNode ''hello'') empty_props []]"
    "renderDynamicContent plain e n = n" for s e n
    by (simp_all add: plain_def)
  have p: "paths_where P (Node k pr [Node (TextNode ''hello'') empty_props []]) =
             (if P (Node (TextNode ''hello'') empty_props []) then [[0]] else [])" for P k pr
    by simp
  note main = markdown_is_delegated [where X = plain and content = "''hello''"
      and sender = "''bot''" and imgs = "[]" and tr = "[]" and opts = defaultOptions
      and els = page and copy_cb = "\<lambda>block. block" and actions_cb = "\<lambda>message text. message"
      and near = True and w = pageWorld and r = 17 and w' = "snd ?r" and m = 8]
  have a: "messageHTML plain (Some ''hello'') ''bot'' [] [] = ''hello''"
    using main ne by (simp add: x)
  have b: "kids (heap (snd ?r) 17) = [Node (TextNode ''hello'') empty_props []]"
    using main eq o a
    by (simp add: x forEach_matching_def set_innerHTML_def p is_element_def)
  have c: "kids (heap (updateStreamingMessage plain 8 ''hello'' True page pageWorld) 8)
       = [Node (TextNode ''hello'') empty_props [],
          set_className ''streaming-cursor'' (createElement ''span'')]"
    using main q by (simp add: x)
  from ne a f b c show ?thesis by (intro conjI)
qed

subsection \<open>What is deferred\<close>

lemma timers_toggleTabs: "timers (toggleTabs tabId els w) = timers w"
  by (simp add: toggleTabs_def Let_def)

lemma timers_switchSettingsSubTab: "timers (switchSettingsSubTab s els w) = timers w"
  by (simp add: switchSettingsSubTab_def Let_def)

lemma timers_attachToChat:
  "attachToChat a els r v = (c, u) \<Longrightarrow> timers u = timers v"
  by (auto simp: attachToChat_def split: option.splits if_splits)

lemma timers_addMessageToChat:
  "timers (snd (addMessageToChat X content sender opts els tr copy_cb actions_cb near w))
     = timers w"
  by (auto simp: addMessageToChat_def Let_def allocate_def
      split: prod.splits completion.splits dest!: timers_attachToChat)

lemma timers_updateStreamingMessage:
  "timers (updateStreamingMessage X m content near els w) = timers w"
  by (simp add: updateStreamingMessage_def Let_def split: option.splits)

lemma timers_finalizeBotMessage:
  "\<exists>v. finalizeBotMessage X m content copy_cb actions_cb restore_cb near els w = restore_cb v
       \<and> timers v = timers w"
proof (cases "querySelector_class ''streaming-cursor'' (heap w m)")
  case None
  show ?thesis
    unfolding finalizeBotMessage_def Let_def None option.case
    by (rule exI, rule conjI, rule refl) simp
next
  case (Some c)
  show ?thesis
    unfolding finalizeBotMessage_def Let_def Some option.case
    by (rule exI, rule conjI, rule refl) simp
qed

lemma timers_addThinkingAnimation:
  "timers (snd (addThinkingAnimation a els near w)) = timers w"
  by (auto simp: addThinkingAnimation_def Let_def allocate_def
      split: prod.splits completion.splits dest!: timers_attachToChat)

lemma timers_updateConnectionIndicator:
  "timers (updateConnectionIndicator X c els tr w) = timers w"
  by (simp add: updateConnectionIndicator_def Let_def split: option.splits)

lemma timers_updateContextStatus:
  "timers (updateContextStatus X k reps els tr w) = timers w"
  by (simp add: updateContextStatus_def Let_def split: option.splits)

lemma timers_resizeTextarea: "timers (resizeTextarea X els w) = timers w"
  by (simp add: resizeTextarea_def Let_def split: option.splits)

lemma timers_applyTranslation: "timers (applyTranslation X tr op w) = timers w"
  by (simp add: applyTranslation_def split: uiop.splits option.splits)

lemma timers_fold_applyTranslation:
  "timers (fold (applyTranslation X tr) ops w) = timers w"
  by (induction ops arbitrary: w) (simp_all add: timers_applyTranslation)

lemma timers_updateUIElementsWithTranslations:
  "timers (updateUIElementsWithTranslations X tr w) = timers w"
  by (simp add: updateUIElementsWithTranslations_def Let_def timers_fold_applyTranslation
      split: option.splits)

lemma timers_restoreSendButtonAndInput:
  "timers (snd (restoreSendButtonAndInput X els tr send abort w)) = timers w"
  by (simp add: restoreSendButtonAndInput_def Let_def split: option.splits)

lemma timers_toggleApiKeyVisibility: "timers (toggleApiKeyVisibility els w) = timers w"
  by (simp add: toggleApiKeyVisibility_def Let_def split: option.splits)

lemma timers_showToast:
  "timers (showToast message type w) = timers w @ [(2000, ToastHide (toastOf w))]"
  by (simp add: showToast_def Let_def allocate_def toastOf_def split: option.splits)

lemma timers_showConnectionStatus:
  "timers (showConnectionStatus message type els w) =
     timers w @ (if connectionStatus els \<noteq> None \<and> type = ''success''
                 then [(3000, ConnectionStatusHide els message)] else [])"
  by (simp add: showConnectionStatus_def Let_def split: option.splits)

lemma timers_showChatStatusMessage:
  "timers (showChatStatusMessage message type els w) =
     timers w @ (if chatStatusMessage els \<noteq> None \<and> type = ''success''
                 then [(2000, ChatStatusFade els message)] else [])"
  by (simp add: showChatStatusMessage_def Let_def split: option.splits)

lemma timers_setupAutoresizeTextarea:
  "timers (setupAutoresizeTextarea els w) =
     timers w @ (if userInput els \<noteq> None then [(0, ResizeDeferred els)] else [])"
  by (simp add: setupAutoresizeTextarea_def Let_def split: option.splits)

lemma timers_showCopyCodeFeedback:
  "timers (showCopyCodeFeedback X b w) =
     timers w @ [(1500, CopyCodeRestore b (innerHTML X (heap w b)))]"
  by (simp add: showCopyCodeFeedback_def Let_def)

lemma timers_showCopyMessageFeedback:
  "\<exists>t. timers (snd (showCopyMessageFeedback b w)) = timers w @ t
       \<and> (t = [] \<or> (\<exists>c n. t = [(1500, CopyMessageRestore b c n)]))"
  by (auto simp: showCopyMessageFeedback_def Let_def split: option.splits list.splits)

lemma timers_fire:
  "timers (fire X a w) =
     timers w @ (case a of
                   ChatStatusFade els message \<Rightarrow>
                     (if chatStatusMessage els \<noteq> None
                      then [(300, ChatStatusHide els message)] else [])
                 | _ \<Rightarrow> [])"
  by (cases a) (simp_all add: Let_def timers_resizeTextarea split: option.splits)

lemma timers_onPaste: "timers (onPaste els w) = timers w @ [(0, ResizeDeferred els)]"
  by (simp add: onPaste_def)

lemma timers_onInput: "timers (onInput X els w) = timers w"
  by (simp add: onInput_def timers_resizeTextarea)

text \<open>
  C4, as amended. These calls of \<^verbatim>\<open>setTimeout\<close> are made and no others: \<^verbatim>\<open>showToast\<close>
  (2000 ms), \<^verbatim>\<open>showConnectionStatus\<close> (3000 ms) and \<^verbatim>\<open>showChatStatusMessage\<close> (2000 ms,
  whose callback schedules a further 300 ms) for a present element and the type
  \<^verbatim>\<open>success\<close>; \<^verbatim>\<open>setupAutoresizeTextarea\<close> and its paste listener (0 ms, the deferred
  resize); \<^verbatim>\<open>showCopyCodeFeedback\<close> and \<^verbatim>\<open>showCopyMessageFeedback\<close> (1500 ms, restoring the
  button). Every other function, listener and timer callback of the file leaves the timer
  queue as it was; \<^verbatim>\<open>switchTab\<close> and \<^verbatim>\<open>finalizeBotMessage\<close> do so up to the call of the
  function they were given.
\<close>

theorem timers_scheduled:
  "timers (showToast message type w) = timers w @ [(2000, ToastHide (toastOf w))]
   \<and> timers (showConnectionStatus message type els w) =
       timers w @ (if connectionStatus els \<noteq> None \<and> type = ''success''
                   then [(3000, ConnectionStatusHide els message)] else [])
   \<and> timers (showChatStatusMessage message type els w) =
       timers w @ (if chatStatusMessage els \<noteq> None \<and> type = ''success''
                   then [(2000, ChatStatusFade els message)] else [])
   \<and> timers (setupAutoresizeTextarea els w) =
       timers w @ (if userInput els \<noteq> None then [(0, ResizeDeferred els)] else [])
   \<and> timers (onPaste els w) = timers w @ [(0, ResizeDeferred els)]
   \<and> timers (showCopyCodeFeedback X button w) =
       timers w @ [(1500, CopyCodeRestore button (innerHTML X (heap w button)))]
   \<and> (\<exists>t. timers (snd (showCopyMessageFeedback button w)) = timers w @ t
         \<and> (t = [] \<or> (\<exists>c n. t = [(1500, CopyMessageRestore button c n)])))
   \<and> timers (fire X a w) =
       timers w @ (case a of
                     ChatStatusFade els message \<Rightarrow>
                       (if chatStatusMessage els \<noteq> None
                        then [(300, ChatStatusHide els message)] else [])
                   | _ \<Rightarrow> [])
   \<and> timers (toggleTabs tabId els w) = timers w
   \<and> (switchTab tabId els cb w = toggleTabs tabId els w
        \<or> tabId = ''settings''
          \<and> switchTab tabId els cb w = cb ''general'' (toggleTabs tabId els w))
   \<and> timers (switchSettingsSubTab subTabId els w) = timers w
   \<and> timers (snd (addMessageToChat X content sender opts els tr copy_cb actions_cb near w))
       = timers w
   \<and> timers (updateStreamingMessage X m text near els w) = timers w
   \<and> (\<exists>v. finalizeBotMessage X m text copy_cb actions_cb restore_cb near els w = restore_cb v
         \<and> timers v = timers w)
   \<and> timers (snd (addThinkingAnimation anchor els near w)) = timers w
   \<and> timers (updateConnectionIndicator X isConnected els tr w) = timers w
   \<and> timers (updateContextStatus X key replacements els tr w) = timers w
   \<and> timers (resizeTextarea X els w) = timers w
   \<and> timers (onInput X els w) = timers w
   \<and> timers (updateUIElementsWithTranslations X dict w) = timers w
   \<and> timers (snd (restoreSendButtonAndInput X els tr send abort w)) = timers w
   \<and> timers (toggleApiKeyVisibility els w) = timers w"
proof (intro conjI)
  show "timers (showToast message type w) = timers w @ [(2000, ToastHide (toastOf w))]"
    by (rule timers_showToast)
next
  show "timers (showConnectionStatus message type els w) =
       timers w @ (if connectionStatus els \<noteq> None \<and> type = ''success''
                   then [(3000, ConnectionStatusHide els message)] else [])"
    by (rule timers_showConnectionStatus)
next
  show "timers (showChatStatusMessage message type els w) =
       timers w @ (if chatStatusMessage els \<noteq> None \<and> type = ''success''
                   then [(2000, ChatStatusFade els message)] else [])"
    by (rule timers_showChatStatusMessage)
next
  show "timers (setupAutoresizeTextarea els w) =
       timers w @ (if userInput els \<noteq> None then [(0, ResizeDeferred els)] else [])"
    by (rule timers_setupAutoresizeTextarea)
next
  show "timers (onPaste els w) = timers w @ [(0, ResizeDeferred els)]"
    by (rule timers_onPaste)
next
  show "timers (showCopyCodeFeedback X button w) =
       timers w @ [(1500, CopyCodeRestore button (innerHTML X (heap w button)))]"
    by (rule timers_showCopyCodeFeedback)
next
  show "(\<exists>t. timers (snd (showCopyMessageFeedback button w)) = timers w @ t
         \<and> (t = [] \<or> (\<exists>c n. t = [(1500, CopyMessageRestore button c n)])))"
    by (rule timers_showCopyMessageFeedback)
next
  show "timers (fire X a w) =
       timers w @ (case a of
                     ChatStatusFade els message \<Rightarrow>
                       (if chatStatusMessage els \<noteq> None
                        then [(300, ChatStatusHide els message)] else [])
                   | _ \<Rightarrow> [])"
    by (rule timers_fire)
next
  show "timers (toggleTabs tabId els w) = timers w"
    by (rule timers_toggleTabs)
next
  show "(switchTab tabId els cb w = toggleTabs tabId els w
        \<or> tabId = ''settings''
          \<and> switchTab tabId els cb w = cb ''general'' (toggleTabs tabId els w))"
    by (rule switchTab_cases)
next
  show "timers (switchSettingsSubTab subTabId els w) = timers w"
    by (rule timers_switchSettingsSubTab)
next
  show "timers (snd (addMessageToChat X content sender opts els tr copy_cb actions_cb near w))
       = timers w"
    by (rule timers_addMessageToChat)
next
  show "timers (updateStreamingMessage X m text near els w) = timers w"
    by (rule timers_updateStreamingMessage)
next
  show "(\<exists>v. finalizeBotMessage X m text copy_cb actions_cb restore_cb near els w = restore_cb v
         \<and> timers v = timers w)"
    by (rule timers_finalizeBotMessage)
next
  show "timers (snd (addThinkingAnimation anchor els near w)) = timers w"
    by (rule timers_addThinkingAnimation)
next
  show "timers (updateConnectionIndicator X isConnected els tr w) = timers w"
    by (rule timers_updateConnectionIndicator)
next
  show "timers (updateContextStatus X key replacements els tr w) = timers w"
    by (rule timers_updateContextStatus)
next
  show "timers (resizeTextarea X els w) = timers w"
    by (rule timers_resizeTextarea)
next
  show "timers (onInput X els w) = timers w"
    by (rule timers_onInput)
next
  show "timers (updateUIElementsWithTranslations X dict w) = timers w"
    by (rule timers_updateUIElementsWithTranslations)
next
  show "timers (snd (restoreSendButtonAndInput X els tr send abort w)) = timers w"
    by (rule timers_restoreSendButtonAndInput)
next
  show "timers (toggleApiKeyVisibility els w) = timers w"
    by (rule timers_toggleApiKeyVisibility)
qed

theorem timers_scheduled_witness:
  "timers (showToast ''hi'' ''success'' pageWorld) = [(2000, ToastHide 17)]
   \<and> timers (showConnectionStatus ''ok'' ''success'' page pageWorld)
       = [(3000, ConnectionStatusHide page ''ok'')]
   \<and> timers (showConnectionStatus ''no'' ''error'' page pageWorld) = []
   \<and> timers (setupAutoresizeTextarea page pageWorld) = [(0, ResizeDeferred page)]
   \<and> timers (showCopyCodeFeedback plain 13 pageWorld) = [(1500, CopyCodeRestore 13 [])]
   \<and> timers (resizeTextarea plain page pageWorld) = []"
proof -
  have e: "timers pageWorld = []" "toastOf pageWorld = 17"
    "innerHTML plain (heap pageWorld 13) = []" "connectionStatus page \<noteq> None"
    "userInput page \<noteq> None"
    by code_simp+
  note main = timers_scheduled [where w = pageWorld and els = page and X = plain
      and button = 13]
  have a: "timers (showToast ''hi'' ''success'' pageWorld) = [(2000, ToastHide 17)]"
    using main [where message = "''hi''" and type = "''success''"] e by simp
  have b: "timers (showConnectionStatus ''ok'' ''success'' page pageWorld)
       = [(3000, ConnectionStatusHide page ''ok'')]"
    using main [where message = "''ok''" and type = "''success''"] e by simp
  have c: "timers (showConnectionStatus ''no'' ''error'' page pageWorld) = []"
    using main [where message = "''no''" and type = "''error''"] e by simp
  have d: "timers (setupAutoresizeTextarea page pageWorld) = [(0, ResizeDeferred page)]"
    using main e by simp
  have f: "timers (showCopyCodeFeedback plain 13 pageWorld) = [(1500, CopyCodeRestore 13 [])]"
    using main e by simp
  have g: "timers (resizeTextarea plain page pageWorld) = []"
    using main e by simp
  from a b c d f g show ?thesis by (intro conjI)
qed

text \<open>
  \<^verbatim>\<open>setTimeout\<close> is not used for fade-outs alone: the callback that
  \<^verbatim>\<open>showCopyCodeFeedback\<close> schedules restores a button, and the one that
  \<^verbatim>\<open>setupAutoresizeTextarea\<close> schedules resizes the textarea.
\<close>

theorem timers_beyond_fade_out_counterexample:
  "timers (showCopyCodeFeedback plain 13 pageWorld) = [(1500, CopyCodeRestore 13 [])]
   \<and> \<not> fadeOut (CopyCodeRestore 13 [])
   \<and> timers (setupAutoresizeTextarea page pageWorld) = [(0, ResizeDeferred page)]
   \<and> \<not> fadeOut (ResizeDeferred page)"
  by code_simp

subsection \<open>Stale status timers\<close>

lemma textContent_set_textContent [simp]: "textContent (set_textContent s n) = s"
  by (cases n) (simp add: set_textContent_def split: kind.splits)

lemma textContent_map_props [simp]: "textContent (map_props f n) = textContent n"
  by (cases n) (simp add: map_props_def)

lemma textContent_set_style [simp]: "textContent (set_style k v n) = textContent n"
  by (simp add: set_style_def)

lemma textContent_set_className [simp]: "textContent (set_className c n) = textContent n"
  by (simp add: set_className_def)

lemma text_after_showConnectionStatus:
  "connectionStatus els = Some c \<Longrightarrow>
   textContent (heap (showConnectionStatus message type els w) c) = message"
  by (simp add: showConnectionStatus_def Let_def)

lemma text_after_showChatStatusMessage:
  "chatStatusMessage els = Some c \<Longrightarrow>
   textContent (heap (showChatStatusMessage message type els w) c) = message"
  by (simp add: showChatStatusMessage_def Let_def)

lemma stale_connection_timer:
  "m2 \<noteq> m \<Longrightarrow>
   fire X (ConnectionStatusHide els m) (showConnectionStatus m2 t2 els v)
     = showConnectionStatus m2 t2 els v"
  by (cases "connectionStatus els") (simp_all add: text_after_showConnectionStatus)

lemma stale_chat_timer:
  "m2 \<noteq> m \<Longrightarrow>
   fire X (ChatStatusHide els m) (showChatStatusMessage m2 t2 els v)
     = showChatStatusMessage m2 t2 els v"
  by (cases "chatStatusMessage els") (simp_all add: text_after_showChatStatusMessage)

lemma fade_keeps_display:
  "chatStatusMessage els = Some c \<Longrightarrow>
   get_style (heap (fire X (ChatStatusFade els m) v) c) ''display'' = get_style (heap v c) ''display''"
  by (simp add: Let_def)

text \<open>
  C5, as amended. \<^verbatim>\<open>showConnectionStatus\<close> and \<^verbatim>\<open>showChatStatusMessage\<close> schedule a timer
  exactly when the element is present and the type is \<^verbatim>\<open>success\<close> (3000 ms, and 2000 ms
  followed by 300 ms); a call with another type schedules nothing. When the timer fires,
  \<^verbatim>\<open>display\<close> becomes \<^verbatim>\<open>none\<close> if the text of the element equals the message of the call
  that scheduled the timer, and nothing is changed otherwise; the 2000 ms stage of
  \<^verbatim>\<open>showChatStatusMessage\<close> leaves \<^verbatim>\<open>display\<close> alone. So a message shown later with a
  different text is not hidden by the display timer of an earlier one.
\<close>

theorem status_fade_out:
  "timers (showConnectionStatus message type els w) =
     timers w @ (if connectionStatus els \<noteq> None \<and> type = ''success''
                 then [(3000, ConnectionStatusHide els message)] else [])
   \<and> timers (showChatStatusMessage message type els w) =
       timers w @ (if chatStatusMessage els \<noteq> None \<and> type = ''success''
                   then [(2000, ChatStatusFade els message)] else [])
   \<and> (connectionStatus els = Some c \<longrightarrow>
        fire X (ConnectionStatusHide els message) v =
          (if textContent (heap v c) = message
           then update_el c (set_style ''display'' ''none'') v else v))
   \<and> (chatStatusMessage els = Some c \<longrightarrow>
        timers (fire X (ChatStatusFade els message) v)
          = timers v @ [(300, ChatStatusHide els message)]
        \<and> get_style (heap (fire X (ChatStatusFade els message) v) c) ''display''
            = get_style (heap v c) ''display'')
   \<and> (chatStatusMessage els = Some c \<longrightarrow>
        fire X (ChatStatusHide els message) v =
          (if textContent (heap v c) = message
           then update_el c (set_style ''display'' ''none'') v else v))
   \<and> (later \<noteq> message \<longrightarrow>
        fire X (ConnectionStatusHide els message) (showConnectionStatus later type' els v)
          = showConnectionStatus later type' els v)
   \<and> (later \<noteq> message \<longrightarrow>
        fire X (ChatStatusHide els message) (showChatStatusMessage later type' els v)
          = showChatStatusMessage later type' els v)"
proof (intro conjI impI)
  show "timers (showConnectionStatus message type els w) =
     timers w @ (if connectionStatus els \<noteq> None \<and> type = ''success''
                 then [(3000, ConnectionStatusHide els message)] else [])"
    by (rule timers_showConnectionStatus)
next
  show "timers (showChatStatusMessage message type els w) =
       timers w @ (if chatStatusMessage els \<noteq> None \<and> type = ''success''
                   then [(2000, ChatStatusFade els message)] else [])"
    by (rule timers_showChatStatusMessage)
next
  assume "connectionStatus els = Some c"
  then show "fire X (ConnectionStatusHide els message) v =
          (if textContent (heap v c) = message
           then update_el c (set_style ''display'' ''none'') v else v)"
    by simp
next
  assume "chatStatusMessage els = Some c"
  then show "timers (fire X (ChatStatusFade els message) v)
          = timers v @ [(300, ChatStatusHide els message)]"
    by (simp add: Let_def)
next
  assume "chatStatusMessage els = Some c"
  then show "get_style (heap (fire X (ChatStatusFade els message) v) c) ''display''
            = get_style (heap v c) ''display''"
    by (rule fade_keeps_display)
next
  assume "chatStatusMessage els = Some c"
  then show "fire X (ChatStatusHide els message) v =
          (if textContent (heap v c) = message
           then update_el c (set_style ''display'' ''none'') v else v)"
    by simp
next
  assume "later \<noteq> message"
  then show "fire X (ConnectionStatusHide els message) (showConnectionStatus later type' els v)
          = showConnectionStatus later type' els v"
    by (rule stale_connection_timer)
next
  assume "later \<noteq> message"
  then show "fire X (ChatStatusHide els message) (showChatStatusMessage later type' els v)
          = showChatStatusMessage later type' els v"
    by (rule stale_chat_timer)
qed

theorem status_fade_out_witness:
  "connectionStatus page = Some 9 \<and> ''Failed'' \<noteq> ''Saved''
   \<and> timers (showConnectionStatus ''Saved'' ''success'' page pageWorld)
       = [(3000, ConnectionStatusHide page ''Saved'')]
   \<and> timers (showConnectionStatus ''Failed'' ''error'' page pageWorld) = []
   \<and> get_style
        (heap (fire plain (ConnectionStatusHide page ''Saved'')
                 (showConnectionStatus ''Saved'' ''success'' page pageWorld)) 9)
        ''display'' = Some ''none''
   \<and> fire plain (ConnectionStatusHide page ''Saved'')
        (showConnectionStatus ''Failed'' ''error'' page
           (showConnectionStatus ''Saved'' ''success'' page pageWorld))
       = showConnectionStatus ''Failed'' ''error'' page
           (showConnectionStatus ''Saved'' ''success'' page pageWorld)"
proof -
  have h: "connectionStatus page = Some 9" "''Failed'' \<noteq> ''Saved''" "timers pageWorld = []"
    by code_simp+
  have t: "textContent (heap (showConnectionStatus ''Saved'' ''success'' page pageWorld) 9)
             = ''Saved''"
    by code_simp
  note main = status_fade_out [where els = page and X = plain and c = 9
      and message = "''Saved''" and later = "''Failed''" and type' = "''error''"]
  have a: "timers (showConnectionStatus ''Saved'' ''success'' page pageWorld)
       = [(3000, ConnectionStatusHide page ''Saved'')]"
    using main [where type = "''success''" and w = pageWorld] h by simp
  have b: "timers (showConnectionStatus ''Failed'' ''error'' page pageWorld) = []"
    using status_fade_out [where els = page and message = "''Failed''" and type = "''error''"
        and w = pageWorld] h by simp
  have c: "get_style
        (heap (fire plain (ConnectionStatusHide page ''Saved'')
                 (showConnectionStatus ''Saved'' ''success'' page pageWorld)) 9)
        ''display'' = Some ''none''"
    using main [where v = "showConnectionStatus ''Saved'' ''success'' page pageWorld"] h t
    by simp
  have d: "fire plain (ConnectionStatusHide page ''Saved'')
        (showConnectionStatus ''Failed'' ''error'' page
           (showConnectionStatus ''Saved'' ''success'' page pageWorld))
       = showConnectionStatus ''Failed'' ''error'' page
           (showConnectionStatus ''Saved'' ''success'' page pageWorld)"
    using main [where v = "showConnectionStatus ''Saved'' ''success'' page pageWorld"] h
    by blast
  from h(1,2) a b c d show ?thesis by (intro conjI)
qed

text \<open>
  A later message with the same text is hidden by the timer of the earlier one, also when
  the later message is not a success: the error \<^verbatim>\<open>Saved\<close> is on display, and the pending
  timer of the success \<^verbatim>\<open>Saved\<close> sets its \<^verbatim>\<open>display\<close> to \<^verbatim>\<open>none\<close>.
\<close>

theorem same_text_stale_timer_counterexample:
  "timers savedTwice = [(3000, ConnectionStatusHide page ''Saved'')]
   \<and> classes (props (heap savedTwice 9)) = [''connection-status'', ''error'']
   \<and> get_style (heap savedTwice 9) ''display'' = Some ''block''
   \<and> get_style (heap (fireTimer plain 0 savedTwice) 9) ''display'' = Some ''none''"
  by code_simp

end
